theory Spec2Isabelle
  imports Complex_Main "HOL-Library.Sublist"
begin

section \<open>Documents\<close>

text \<open>
  A document is a JavaScript object holding JSON data, as \<open>JSON.parse\<close> builds it: every
  key is an own property, each name once, and the prototype is \<open>Object.prototype\<close> (for
  an array, \<open>Array.prototype\<close>). Numbers are kept to the integers (printed in decimal, as
  JavaScript prints integers of magnitude below \<open>10^21\<close>); the only thing the search
  ever does with a number is print an \<open>_id\<close>.
\<close>

datatype json =
    JNull
  | JBool bool
  | JNumber int
  | JString string
  | JArray "json list"
  | JObject "(string \<times> json) list"

type_synonym document = "(string \<times> json) list"

type_synonym collection = "document list"

text \<open>
  What the search can throw to its caller. The \<open>SyntaxError\<close> of \<open>new RegExp\<close> is caught
  where it is thrown and is a \<open>None\<close> of \<open>regexpNew\<close> below.
\<close>

datatype jsError = TypeError

text \<open>\<open>Number.prototype.toString\<close> on a non-negative integer.\<close>

fun showNat :: "nat \<Rightarrow> string" where
  "showNat n =
     (if n < 10 then [''0123456789'' ! n]
      else showNat (n div 10) @ [''0123456789'' ! (n mod 10)])"

declare showNat.simps [simp del]

definition showInt :: "int \<Rightarrow> string" where
  "showInt i = (if i < 0 then CHR ''-'' # showNat (nat (- i)) else showNat (nat i))"

text \<open>\<open>Array.prototype.join\<close> with the separator \<open>,\<close>.\<close>

fun joinComma :: "string list \<Rightarrow> string" where
  "joinComma [] = []"
| "joinComma [s] = s"
| "joinComma (s # t # ss) = s @ CHR '','' # joinComma (t # ss)"

text \<open>
  \<open>toString()\<close> of a value that is neither \<open>null\<close> nor \<open>undefined\<close>. A boolean, a number
  and a string have the method of their wrapper. An object inherits
  \<open>Object.prototype.toString\<close>, unless it has a key \<open>toString\<close> of its own: the value
  under that key is JSON data, so it is not a function, and calling it raises
  \<open>TypeError\<close>. An array joins the strings of its elements, a \<open>null\<close> element giving the
  empty string; converting an element that is an object with a key \<open>toString\<close> of its
  own raises \<open>TypeError\<close> as well (its \<open>toString\<close> cannot be called and \<open>valueOf\<close> yields
  no primitive).
\<close>

fun jsToString :: "json \<Rightarrow> jsError + string" where
  "jsToString JNull = Inr ''null''"
| "jsToString (JBool b) = Inr (if b then ''true'' else ''false'')"
| "jsToString (JNumber i) = Inr (showInt i)"
| "jsToString (JString s) = Inr s"
| "jsToString (JArray xs) =
     (let parts = map (\<lambda>x. if x = JNull then Inr [] else jsToString x) xs
      in if list_ex isl parts then Inl TypeError else Inr (joinComma (map projr parts)))"
| "jsToString (JObject kvs) =
     (if ''toString'' \<in> set (map fst kvs) then Inl TypeError else Inr ''[object Object]'')"

section \<open>Field resolution\<close>

text \<open>\<open>path.split('.')\<close>: never empty, the empty path gives one empty key.\<close>

fun splitDot :: "string \<Rightarrow> string list" where
  "splitDot [] = [[]]"
| "splitDot (c # cs) =
     (if c = CHR ''.'' then [] # splitDot cs
      else (case splitDot cs of
              [] \<Rightarrow> [[c]]
            | w # ws \<Rightarrow> (c # w) # ws))"

text \<open>
  The values that \<open>current\<close> can take in \<open>getNestedFieldValue\<close>: the data of the
  document, and what \<open>current[key]\<close> finds on the prototype chain, which is a function
  (any of them, they are not told apart), \<open>Object.prototype\<close> or \<open>Array.prototype\<close>.
\<close>

datatype jsValue =
    Data json
  | FunctionObject
  | ObjectPrototype
  | ArrayPrototype

text \<open>
  \<open>typeof current !== 'object'\<close> for a value that is not \<open>null\<close>: arrays, objects and
  the two prototypes are objects; booleans, numbers, strings and functions are not.
\<close>

fun isObjectType :: "jsValue \<Rightarrow> bool" where
  "isObjectType (Data (JArray xs)) = True"
| "isObjectType (Data (JObject kvs)) = True"
| "isObjectType ObjectPrototype = True"
| "isObjectType ArrayPrototype = True"
| "isObjectType v = False"

text \<open>
  The own properties. An object has its keys; an array has its canonical index strings
  and \<open>length\<close>; \<open>Array.prototype\<close> is an array of length zero. The functions and the
  accessor \<open>__proto__\<close> of the prototypes are left to \<open>inheritedProperty\<close> below.
\<close>

definition arrayIndex :: "string \<Rightarrow> nat \<Rightarrow> nat option" where
  "arrayIndex key n = List.find (\<lambda>i. showNat i = key) [0..<n]"

fun ownProperty :: "jsValue \<Rightarrow> string \<Rightarrow> json option" where
  "ownProperty (Data (JObject kvs)) key = map_of kvs key"
| "ownProperty (Data (JArray xs)) key =
     (if key = ''length'' then Some (JNumber (int (length xs)))
      else (case arrayIndex key (length xs) of
              None \<Rightarrow> None
            | Some i \<Rightarrow> Some (xs ! i)))"
| "ownProperty ArrayPrototype key = (if key = ''length'' then Some (JNumber 0) else None)"
| "ownProperty v key = None"

text \<open>
  The names of the functions of \<open>Object.prototype\<close> and of \<open>Array.prototype\<close>, as of
  ECMAScript 2023 (with its Annex B). With an engine of another edition some of the
  last names of the second list find nothing instead of a function.
\<close>

definition objectPrototypeFunctions :: "string list" where
  "objectPrototypeFunctions =
     [''constructor'', ''hasOwnProperty'', ''isPrototypeOf'', ''propertyIsEnumerable'',
      ''toLocaleString'', ''toString'', ''valueOf'', ''__defineGetter__'',
      ''__defineSetter__'', ''__lookupGetter__'', ''__lookupSetter__'']"

definition arrayPrototypeFunctions :: "string list" where
  "arrayPrototypeFunctions =
     [''constructor'', ''concat'', ''copyWithin'', ''entries'', ''every'', ''fill'',
      ''filter'', ''find'', ''findIndex'', ''forEach'', ''includes'', ''indexOf'', ''join'',
      ''keys'', ''lastIndexOf'', ''map'', ''pop'', ''push'', ''reduce'', ''reduceRight'',
      ''reverse'', ''shift'', ''slice'', ''some'', ''sort'', ''splice'', ''toLocaleString'',
      ''toString'', ''unshift'', ''values'', ''flat'', ''flatMap'', ''at'', ''findLast'',
      ''findLastIndex'', ''toReversed'', ''toSorted'', ''toSpliced'', ''with'']"

text \<open>The prototype of an object value, which the accessor \<open>__proto__\<close> returns.\<close>

fun prototypeOf :: "jsValue \<Rightarrow> jsValue" where
  "prototypeOf (Data (JArray xs)) = ArrayPrototype"
| "prototypeOf ArrayPrototype = ObjectPrototype"
| "prototypeOf ObjectPrototype = Data JNull"
| "prototypeOf v = ObjectPrototype"

text \<open>
  What the prototype chain gives for a key that is no own property: the chain of an
  array passes through the functions of \<open>Array.prototype\<close> (which has them as its
  own), every chain ends with those of \<open>Object.prototype\<close>.
\<close>

fun hasArrayPrototype :: "jsValue \<Rightarrow> bool" where
  "hasArrayPrototype (Data (JArray xs)) = True"
| "hasArrayPrototype ArrayPrototype = True"
| "hasArrayPrototype v = False"

definition inheritedProperty :: "jsValue \<Rightarrow> string \<Rightarrow> jsValue option" where
  "inheritedProperty v key =
     (if key = ''__proto__'' then Some (prototypeOf v)
      else if hasArrayPrototype v \<and> key \<in> set arrayPrototypeFunctions then Some FunctionObject
      else if key \<in> set objectPrototypeFunctions then Some FunctionObject
      else None)"

text \<open>\<open>current[key]\<close> on a value that is an object; \<open>None\<close> is \<open>undefined\<close>.\<close>

definition getProperty :: "jsValue \<Rightarrow> string \<Rightarrow> jsValue option" where
  "getProperty v key =
     (case ownProperty v key of
        Some d \<Rightarrow> Some (Data d)
      | None \<Rightarrow> inheritedProperty v key)"

text \<open>
  The loop of \<open>getNestedFieldValue\<close>: \<open>current\<close> is \<open>None\<close> when it is \<open>undefined\<close>.
  The test \<open>current == null\<close> holds for \<open>null\<close> and for \<open>undefined\<close>.
\<close>

fun walkKeys :: "jsValue option \<Rightarrow> string list \<Rightarrow> jsValue option" where
  "walkKeys current [] = current"
| "walkKeys current (key # keys) =
     (case current of
        None \<Rightarrow> None
      | Some v \<Rightarrow>
          if v = Data JNull \<or> \<not> isObjectType v then None
          else walkKeys (getProperty v key) keys)"

definition getNestedFieldValue :: "jsValue \<Rightarrow> string \<Rightarrow> jsValue option" where
  "getNestedFieldValue obj path = walkKeys (Some obj) (splitDot path)"

text \<open>
  What the search reads of a document: the text of the field when
  \<open>typeof fieldValue === 'string'\<close>, nothing otherwise.
\<close>

definition fieldText :: "document \<Rightarrow> string \<Rightarrow> string option" where
  "fieldText doc field =
     (case getNestedFieldValue (Data (JObject doc)) field of
        Some (Data (JString s)) \<Rightarrow> Some s
      | _ \<Rightarrow> None)"

section \<open>The regular expression engine\<close>

text \<open>
  \<open>RegExp\<close> belongs to the language, not to the program, so it is a parameter:
  \<open>regexpNew pattern options\<close> is \<open>new RegExp(pattern, options)\<close>, with \<open>None\<close> for the
  \<open>SyntaxError\<close> it throws, and \<open>regexpTest regex text\<close> is \<open>regex.test(text)\<close>, which
  returns the regular expression as well: with the flag \<open>g\<close> or \<open>y\<close>, \<open>test\<close> moves
  \<open>lastIndex\<close>.
\<close>

record 'r RegExpEngine =
  regexpNew :: "string \<Rightarrow> string \<Rightarrow> 'r option"
  regexpTest :: "'r \<Rightarrow> string \<Rightarrow> bool \<times> 'r"

text \<open>
  \<open>collection.filter(doc => ...)\<close> of \<open>performFullRegexSearch\<close>: one regular expression
  object serves every document, in order.
\<close>

fun filterDocs :: "'r RegExpEngine \<Rightarrow> 'r \<Rightarrow> string \<Rightarrow> collection \<Rightarrow> collection" where
  "filterDocs eng regex field [] = []"
| "filterDocs eng regex field (doc # docs) =
     (case fieldText doc field of
        None \<Rightarrow> filterDocs eng regex field docs
      | Some s \<Rightarrow>
          (case regexpTest eng regex s of
             (True, regex') \<Rightarrow> doc # filterDocs eng regex' field docs
           | (False, regex') \<Rightarrow> filterDocs eng regex' field docs))"

definition performFullRegexSearch ::
  "'r RegExpEngine \<Rightarrow> collection \<Rightarrow> string \<Rightarrow> string \<Rightarrow> string \<Rightarrow> collection" where
  "performFullRegexSearch eng collection field pattern options =
     (case regexpNew eng pattern options of
        None \<Rightarrow> []
      | Some regex \<Rightarrow> filterDocs eng regex field collection)"

section \<open>Configuration, statistics and the global state\<close>

record RegexSearchConfig =
  enableBloomFilter :: bool
  bloomFilterSizeBytes :: int
  minLiteralLength :: int
  maxPatternComplexity :: int

text \<open>
  \<open>Partial<RegexSearchConfig>\<close>: a key that is absent is \<open>None\<close>. An override that
  holds a key with the value \<open>undefined\<close> is not among these records.
\<close>

record PartialConfig =
  enableBloomFilterOpt :: "bool option"
  bloomFilterSizeBytesOpt :: "int option"
  minLiteralLengthOpt :: "int option"
  maxPatternComplexityOpt :: "int option"

definition noOverride :: PartialConfig where
  "noOverride =
     \<lparr>enableBloomFilterOpt = None, bloomFilterSizeBytesOpt = None,
      minLiteralLengthOpt = None, maxPatternComplexityOpt = None\<rparr>"

text \<open>Overrides of one key.\<close>

definition enableOverride :: "bool \<Rightarrow> PartialConfig" where
  "enableOverride b = noOverride\<lparr>enableBloomFilterOpt := Some b\<rparr>"

definition ceilingOverride :: "int \<Rightarrow> PartialConfig" where
  "ceilingOverride n = noOverride\<lparr>maxPatternComplexityOpt := Some n\<rparr>"

text \<open>\<open>{ ...base, ...config }\<close>, and \<open>Object.assign(base, config)\<close>.\<close>

definition mergeConfig :: "RegexSearchConfig \<Rightarrow> PartialConfig \<Rightarrow> RegexSearchConfig" where
  "mergeConfig base config =
     \<lparr>enableBloomFilter =
        (case enableBloomFilterOpt config of None \<Rightarrow> enableBloomFilter base | Some b \<Rightarrow> b),
      bloomFilterSizeBytes =
        (case bloomFilterSizeBytesOpt config of None \<Rightarrow> bloomFilterSizeBytes base | Some n \<Rightarrow> n),
      minLiteralLength =
        (case minLiteralLengthOpt config of None \<Rightarrow> minLiteralLength base | Some n \<Rightarrow> n),
      maxPatternComplexity =
        (case maxPatternComplexityOpt config of None \<Rightarrow> maxPatternComplexity base | Some n \<Rightarrow> n)\<rparr>"

text \<open>
  The counters are JavaScript numbers that only ever count; they are natural numbers
  here (exact as long as a counter stays below \<open>2^53\<close>). Times are real numbers, without
  the rounding of floating point. \<open>averageSpeedupRatio\<close> is \<open>None\<close> when it is \<open>NaN\<close>.
\<close>

record RegexSearchStats =
  totalQueries :: nat
  prefilterHits :: nat
  candidatesBeforeFilter :: nat
  candidatesAfterFilter :: nat
  actualMatches :: nat
  falsePositiveRate :: real
  averageSpeedupRatio :: "real option"
  totalPrefilterTime :: real
  totalVerificationTime :: real
  unsupportedPatterns :: nat
  shortPatterns :: nat

definition initialStats :: RegexSearchStats where
  "initialStats =
     \<lparr>totalQueries = 0, prefilterHits = 0, candidatesBeforeFilter = 0,
      candidatesAfterFilter = 0, actualMatches = 0, falsePositiveRate = 0,
      averageSpeedupRatio = Some 1, totalPrefilterTime = 0, totalVerificationTime = 0,
      unsupportedPatterns = 0, shortPatterns = 0\<rparr>"

definition initialConfig :: RegexSearchConfig where
  "initialConfig =
     \<lparr>enableBloomFilter = True, bloomFilterSizeBytes = 256,
      minLiteralLength = 3, maxPatternComplexity = 100\<rparr>"

text \<open>
  The three module-level variables. \<open>globalRegexSearchFilter\<close> is \<open>None\<close> when it is
  \<open>null\<close>.
\<close>

record 'f GlobalState =
  regexSearchStats :: RegexSearchStats
  defaultConfig :: RegexSearchConfig
  globalRegexSearchFilter :: "'f option"

definition initialState :: "'f GlobalState" where
  "initialState =
     \<lparr>regexSearchStats = initialStats, defaultConfig = initialConfig,
      globalRegexSearchFilter = None\<rparr>"

text \<open>The readings of \<open>performance.now()\<close> that one query takes, in the order it takes them.\<close>

record Clock =
  startTime :: real
  prefilterStartTime :: real
  prefilterEndTime :: real
  verificationStartTime :: real
  verificationEndTime :: real
  finishTime :: real

section \<open>The Bloom filter module\<close>

text \<open>
  \<open>bloom-filter.ts\<close> is imported by the search and is a parameter here: the two
  functions \<open>extractLiteralsFromRegex\<close> and \<open>extractTrigrams\<close>, and of the class
  \<open>RegexSearchBloomFilter\<close> its constructor, \<open>addDocument\<close> and \<open>testRegexPattern\<close>.
  They are taken to return without raising, as their contract has it. A filter is a
  mutable object, so both methods return it. Of the result of
  \<open>testRegexPattern\<close> the search uses \<open>candidates\<close> and \<open>shouldUsePrefilter\<close>; the third
  field, an estimate of the false positive rate, is only ever printed.
\<close>

record TestResult =
  candidates :: "string list"
  shouldUsePrefilter :: bool

record 'f BloomModule =
  extractLiteralsFromRegex :: "string \<Rightarrow> string list"
  extractTrigrams :: "string \<Rightarrow> string list"
  newFilter :: "int \<Rightarrow> nat \<Rightarrow> 'f"
  addDocument :: "string \<Rightarrow> string \<Rightarrow> 'f \<Rightarrow> 'f"
  testRegexPattern :: "string \<Rightarrow> 'f \<Rightarrow> TestResult \<times> 'f"

section \<open>The threshold of seventy per cent\<close>

text \<open>
  \<open>candidates.length > collection.length * 0.7\<close> is a comparison of doubles. The double
  \<open>0.7\<close> is \<open>6305039478318694 / 2^53\<close>, a little below seven tenths; the product with
  the length is rounded to 53 significant bits, ties to even. Lengths are below \<open>2^53\<close>
  and so are exact doubles. Everything is counted in units of \<open>2^-53\<close>.
\<close>

fun bitLength :: "nat \<Rightarrow> nat" where
  "bitLength n = (if n = 0 then 0 else Suc (bitLength (n div 2)))"

declare bitLength.simps [simp del]

definition roundSignificand :: "nat \<Rightarrow> nat" where
  "roundSignificand a =
     (if bitLength a \<le> 53 then a
      else
        (let s = bitLength a - 53;
             q = a div 2 ^ s;
             r = a mod 2 ^ s;
             h = 2 ^ (s - 1)
         in (if h < r \<or> (r = h \<and> odd q) then q + 1 else q) * 2 ^ s))"

definition timesPointSeven :: "nat \<Rightarrow> nat" where
  "timesPointSeven n = roundSignificand (n * 6305039478318694)"

definition exceedsSeventyPercent :: "nat \<Rightarrow> nat \<Rightarrow> bool" where
  "exceedsSeventyPercent c n = (timesPointSeven n < c * 2 ^ 53)"

section \<open>The search\<close>

definition getGlobalRegexFilter :: "'f BloomModule \<Rightarrow> 'f GlobalState \<Rightarrow> 'f \<times> 'f GlobalState" where
  "getGlobalRegexFilter bm st =
     (case globalRegexSearchFilter st of
        Some f \<Rightarrow> (f, st)
      | None \<Rightarrow>
          (let f = newFilter bm (bloomFilterSizeBytes (defaultConfig st)) 3
           in (f, st\<lparr>globalRegexSearchFilter := Some f\<rparr>)))"

text \<open>
  \<open>(doc as any)._id?.toString()\<close>: \<open>Inr None\<close> (that is, \<open>undefined\<close>) when the document
  has no \<open>_id\<close> or a \<open>null\<close> one, and \<open>Inl TypeError\<close> when \<open>toString\<close> raises. No
  prototype has a property \<open>_id\<close>, so the lookup is among the document's own keys.
\<close>

definition idString :: "document \<Rightarrow> jsError + string option" where
  "idString doc =
     (case map_of doc ''_id'' of
        None \<Rightarrow> Inr None
      | Some v \<Rightarrow>
          if v = JNull then Inr None
          else (case jsToString v of Inl e \<Rightarrow> Inl e | Inr s \<Rightarrow> Inr (Some s)))"

definition idRaises :: "document \<Rightarrow> bool" where
  "idRaises doc = (idString doc = Inl TypeError)"

text \<open>
  \<open>(doc as any)._id?.toString() || index.toString()\<close>: an empty string is falsy, as
  \<open>undefined\<close> is.
\<close>

definition docIdOf :: "document \<Rightarrow> nat \<Rightarrow> jsError + string" where
  "docIdOf doc index =
     (case idString doc of
        Inl e \<Rightarrow> Inl e
      | Inr None \<Rightarrow> Inr (showNat index)
      | Inr (Some s) \<Rightarrow> Inr (if s = [] then showNat index else s))"

text \<open>
  The \<open>forEach\<close> of \<open>buildRegexDocumentIndex\<close>, from the document at \<open>index\<close> on. The
  identity is computed first, outside any \<open>try\<close>: when it raises, the loop ends there,
  and the filter keeps the documents indexed so far. The result is the error, if any,
  and the filter.
\<close>

fun indexFrom ::
  "'f BloomModule \<Rightarrow> string \<Rightarrow> nat \<Rightarrow> collection \<Rightarrow> 'f \<Rightarrow> jsError option \<times> 'f" where
  "indexFrom bm field index [] f = (None, f)"
| "indexFrom bm field index (doc # docs) f =
     (case docIdOf doc index of
        Inl e \<Rightarrow> (Some e, f)
      | Inr docId \<Rightarrow>
          indexFrom bm field (Suc index) docs
            (case fieldText doc field of
               None \<Rightarrow> f
             | Some s \<Rightarrow> addDocument bm docId s f))"

definition buildRegexDocumentIndex ::
  "'f BloomModule \<Rightarrow> collection \<Rightarrow> string \<Rightarrow> 'f \<Rightarrow> jsError option \<times> 'f" where
  "buildRegexDocumentIndex bm collection field filter0 = indexFrom bm field 0 collection filter0"

text \<open>
  \<open>candidateSet.has(index.toString()) || candidateSet.has((doc as any)._id?.toString())\<close>;
  the second test is made only when the first fails. The set holds strings, so it does
  not have \<open>undefined\<close>.
\<close>

definition isCandidate :: "string list \<Rightarrow> nat \<Rightarrow> document \<Rightarrow> jsError + bool" where
  "isCandidate cands index doc =
     (if showNat index \<in> set cands then Inr True
      else (case idString doc of
              Inl e \<Rightarrow> Inl e
            | Inr None \<Rightarrow> Inr False
            | Inr (Some s) \<Rightarrow> Inr (s \<in> set cands)))"

text \<open>The \<open>collection.filter\<close> that selects the candidate documents, from \<open>index\<close> on.\<close>

fun candidatesFrom :: "string list \<Rightarrow> nat \<Rightarrow> collection \<Rightarrow> jsError + collection" where
  "candidatesFrom cands index [] = Inr []"
| "candidatesFrom cands index (doc # docs) =
     (case isCandidate cands index doc of
        Inl e \<Rightarrow> Inl e
      | Inr keep \<Rightarrow>
          (case candidatesFrom cands (Suc index) docs of
             Inl e \<Rightarrow> Inl e
           | Inr rest \<Rightarrow> Inr (if keep then doc # rest else rest)))"

definition candidateDocsOf :: "string list \<Rightarrow> collection \<Rightarrow> jsError + collection" where
  "candidateDocsOf cands collection = candidatesFrom cands 0 collection"

text \<open>
  \<open>speedupRatio\<close>: with no time elapsed the quotient is \<open>0 / 0\<close>, which is \<open>NaN\<close>; the
  running average takes it in and stays \<open>NaN\<close>.
\<close>

definition speedupRatioOf :: "real \<Rightarrow> nat \<Rightarrow> nat \<Rightarrow> real option" where
  "speedupRatioOf totalTime nCandidateDocs nCollection =
     (if 0 < nCandidateDocs then
        (if totalTime = 0 then None
         else Some ((totalTime / real nCandidateDocs) * real nCollection / totalTime))
      else Some 1)"

definition averageWith :: "real option \<Rightarrow> nat \<Rightarrow> real option \<Rightarrow> real option" where
  "averageWith avg n ratio =
     (case (avg, ratio) of
        (Some a, Some x) \<Rightarrow> Some ((a * (real n - 1) + x) / real n)
      | _ \<Rightarrow> None)"

text \<open>The statistics of the branch that skips the prefilter.\<close>

definition countSkipped :: "bool \<Rightarrow> bool \<Rightarrow> RegexSearchStats \<Rightarrow> RegexSearchStats" where
  "countSkipped hasUsefulLiterals tooLong stats =
     (let stats1 = (if \<not> hasUsefulLiterals
                    then stats\<lparr>shortPatterns := shortPatterns stats + 1\<rparr> else stats)
      in (if tooLong
          then stats1\<lparr>unsupportedPatterns := unsupportedPatterns stats1 + 1\<rparr> else stats1))"

text \<open>
  The second half of \<open>enhancedRegexMatch\<close>, from \<open>// Try Bloom filter prefiltering\<close> on.
  The result is what the caller gets, a collection or the error raised, and the state
  in which the call leaves the module's variables.
\<close>

definition prefilteredSearch ::
  "'r RegExpEngine \<Rightarrow> 'f BloomModule \<Rightarrow> Clock \<Rightarrow> 'f GlobalState \<Rightarrow> collection \<Rightarrow>
   string \<Rightarrow> string \<Rightarrow> string \<Rightarrow> (jsError + collection) \<times> 'f GlobalState" where
  "prefilteredSearch eng bm clock st collection field pattern options =
     (case getGlobalRegexFilter bm st of (filter0, st1) \<Rightarrow>
      (case buildRegexDocumentIndex bm collection field filter0 of
         (Some e, filter1) \<Rightarrow> (Inl e, st1\<lparr>globalRegexSearchFilter := Some filter1\<rparr>)
       | (None, filter1) \<Rightarrow>
      (case testRegexPattern bm pattern filter1 of (res, filter2) \<Rightarrow>
      (let stats1 = (regexSearchStats st1)
             \<lparr>candidatesBeforeFilter :=
                candidatesBeforeFilter (regexSearchStats st1) + length collection,
              candidatesAfterFilter :=
                candidatesAfterFilter (regexSearchStats st1) + length (candidates res),
              totalPrefilterTime :=
                totalPrefilterTime (regexSearchStats st1)
                  + (prefilterEndTime clock - prefilterStartTime clock)\<rparr>;
           st2 = st1\<lparr>regexSearchStats := stats1, globalRegexSearchFilter := Some filter2\<rparr>
       in if \<not> shouldUsePrefilter res
             \<or> exceedsSeventyPercent (length (candidates res)) (length collection)
          then (Inr (performFullRegexSearch eng collection field pattern options), st2)
          else
            (let stats1h = stats1\<lparr>prefilterHits := prefilterHits stats1 + 1\<rparr>
             in (case candidateDocsOf (candidates res) collection of
                   Inl e \<Rightarrow> (Inl e, st2\<lparr>regexSearchStats := stats1h\<rparr>)
                 | Inr candidateDocs \<Rightarrow>
                     (let results = performFullRegexSearch eng candidateDocs field pattern options;
                          speedupRatio =
                            speedupRatioOf (finishTime clock - startTime clock)
                              (length candidateDocs) (length collection);
                          stats2 = stats1h
                            \<lparr>totalVerificationTime :=
                               totalVerificationTime stats1h
                                 + (verificationEndTime clock - verificationStartTime clock),
                             actualMatches := actualMatches stats1h + length results,
                             averageSpeedupRatio :=
                               averageWith (averageSpeedupRatio stats1h) (totalQueries stats1h)
                                 speedupRatio\<rparr>
                      in (Inr results, st2\<lparr>regexSearchStats := stats2\<rparr>))))))))"

text \<open>
  What the probe of the index answers for a query made in the state \<open>st\<close>: the filter is
  fetched or created, the collection is indexed, the pattern is tested. There is no
  answer when the indexing raises.
\<close>

definition probeResult ::
  "'f BloomModule \<Rightarrow> 'f GlobalState \<Rightarrow> collection \<Rightarrow> string \<Rightarrow> string \<Rightarrow> TestResult option" where
  "probeResult bm st collection field pattern =
     (case buildRegexDocumentIndex bm collection field (fst (getGlobalRegexFilter bm st)) of
        (Some e, filter1) \<Rightarrow> None
      | (None, filter1) \<Rightarrow> Some (fst (testRegexPattern bm pattern filter1)))"

text \<open>
  \<open>hasUsefulLiterals\<close> and the test that guards the prefilter. The pattern is a string,
  so \<open>!pattern\<close> holds of the empty pattern only.
\<close>

definition hasUsefulLiterals :: "'f BloomModule \<Rightarrow> RegexSearchConfig \<Rightarrow> string \<Rightarrow> bool" where
  "hasUsefulLiterals bm mergedConfig pattern =
     list_ex (\<lambda>lit. minLiteralLength mergedConfig \<le> int (length lit))
       (extractLiteralsFromRegex bm pattern)"

definition patternTooLong :: "RegexSearchConfig \<Rightarrow> string \<Rightarrow> bool" where
  "patternTooLong mergedConfig pattern =
     (maxPatternComplexity mergedConfig < int (length pattern))"

definition enhancedRegexMatch ::
  "'r RegExpEngine \<Rightarrow> 'f BloomModule \<Rightarrow> Clock \<Rightarrow> 'f GlobalState \<Rightarrow> collection \<Rightarrow>
   string \<Rightarrow> string \<Rightarrow> string \<Rightarrow> PartialConfig \<Rightarrow>
   (jsError + collection) \<times> 'f GlobalState" where
  "enhancedRegexMatch eng bm clock st collection field pattern options config =
     (let mergedConfig = mergeConfig (defaultConfig st) config;
          st1 = st\<lparr>regexSearchStats :=
                  (regexSearchStats st)\<lparr>totalQueries := totalQueries (regexSearchStats st) + 1\<rparr>\<rparr>
      in if pattern = [] then (Inr [], st1)
         else if \<not> enableBloomFilter mergedConfig
                 \<or> \<not> hasUsefulLiterals bm mergedConfig pattern
                 \<or> patternTooLong mergedConfig pattern
         then (Inr (performFullRegexSearch eng collection field pattern options),
               st1\<lparr>regexSearchStats :=
                     countSkipped (hasUsefulLiterals bm mergedConfig pattern)
                       (patternTooLong mergedConfig pattern) (regexSearchStats st1)\<rparr>)
         else prefilteredSearch eng bm clock st1 collection field pattern options)"

section \<open>Pattern analysis\<close>

text \<open>The characters of the class \<open>[.*+?^${}()|[\]\\]\<close>; the last one is the backslash.\<close>

definition isMetaChar :: "char \<Rightarrow> bool" where
  "isMetaChar c = (c \<in> set (''.*+?^${}()|[]'' @ [CHR 0x5C]))"

definition complexityOf :: "string \<Rightarrow> nat" where
  "complexityOf pattern = length pattern + length (filter isMetaChar pattern)"

record PatternAnalysis =
  literals :: "string list"
  trigrams :: "string list"
  suitableForBloom :: bool
  complexity :: nat

definition analyzeRegexPattern :: "'f BloomModule \<Rightarrow> string \<Rightarrow> PatternAnalysis" where
  "analyzeRegexPattern bm pattern =
     (let lits = extractLiteralsFromRegex bm pattern
      in \<lparr>literals = lits,
          trigrams = concat (map (extractTrigrams bm) lits),
          suitableForBloom =
            (list_ex (\<lambda>lit. 3 \<le> length lit) lits \<and> complexityOf pattern \<le> 100),
          complexity = complexityOf pattern\<rparr>)"

section \<open>Administration\<close>

definition resetRegexSearchStats :: "'f GlobalState \<Rightarrow> 'f GlobalState" where
  "resetRegexSearchStats st = st\<lparr>regexSearchStats := initialStats\<rparr>"

definition getRegexSearchStats :: "'f GlobalState \<Rightarrow> RegexSearchStats" where
  "getRegexSearchStats st =
     (let stats = regexSearchStats st
      in if 0 < candidatesBeforeFilter stats then
           stats\<lparr>falsePositiveRate :=
             (if actualMatches stats < candidatesAfterFilter stats
              then (real (candidatesAfterFilter stats) - real (actualMatches stats))
                     / real (candidatesAfterFilter stats)
              else 0)\<rparr>
         else stats)"

definition configureRegexSearch :: "PartialConfig \<Rightarrow> 'f GlobalState \<Rightarrow> 'f GlobalState" where
  "configureRegexSearch config st =
     (let st1 = st\<lparr>defaultConfig := mergeConfig (defaultConfig st) config\<rparr>
      in if globalRegexSearchFilter st1 \<noteq> None
            \<and> (bloomFilterSizeBytesOpt config \<noteq> None \<or> enableBloomFilterOpt config = Some False)
         then st1\<lparr>globalRegexSearchFilter := None\<rparr>
         else st1)"

text \<open>The filter is cleared and then dropped; nothing refers to it afterwards.\<close>

definition clearRegexSearchIndex :: "'f GlobalState \<Rightarrow> 'f GlobalState" where
  "clearRegexSearchIndex st = st\<lparr>globalRegexSearchFilter := None\<rparr>"

text \<open>A caller's use of the module: any sequence of calls of its exported functions.\<close>

datatype apiCall =
    CallEnhancedRegexMatch Clock collection string string string PartialConfig
  | CallAnalyzeRegexPattern string
  | CallGetRegexSearchStats
  | CallConfigureRegexSearch PartialConfig
  | CallClearRegexSearchIndex
  | CallResetRegexSearchStats

fun isQuery :: "apiCall \<Rightarrow> bool" where
  "isQuery (CallEnhancedRegexMatch clock collection field pattern options config) = True"
| "isQuery call = False"

fun applyCall :: "'r RegExpEngine \<Rightarrow> 'f BloomModule \<Rightarrow> 'f GlobalState \<Rightarrow> apiCall \<Rightarrow> 'f GlobalState" where
  "applyCall eng bm st (CallEnhancedRegexMatch clock collection field pattern options config) =
     snd (enhancedRegexMatch eng bm clock st collection field pattern options config)"
| "applyCall eng bm st (CallAnalyzeRegexPattern pattern) = st"
| "applyCall eng bm st CallGetRegexSearchStats = st"
| "applyCall eng bm st (CallConfigureRegexSearch config) = configureRegexSearch config st"
| "applyCall eng bm st CallClearRegexSearchIndex = clearRegexSearchIndex st"
| "applyCall eng bm st CallResetRegexSearchStats = resetRegexSearchStats st"

definition runCalls :: "'r RegExpEngine \<Rightarrow> 'f BloomModule \<Rightarrow> 'f GlobalState \<Rightarrow> apiCall list \<Rightarrow> 'f GlobalState" where
  "runCalls eng bm st calls = foldl (applyCall eng bm) st calls"

section \<open>A reading of the Bloom filter module\<close>

text \<open>
  Modelled from the spec: \<open>extractTrigrams\<close> of \<open>bloom-filter.ts\<close>, which is not among the
  sources. A trigram is a window of three characters; a literal of length \<open>L\<close> yields
  \<open>max(0, L - 2)\<close> of them, deduplicated.
\<close>

fun windows3 :: "string \<Rightarrow> string list" where
  "windows3 (a # b # c # rest) = [a, b, c] # windows3 (b # c # rest)"
| "windows3 s = []"

definition extractTrigramsSpec :: "string \<Rightarrow> string list" where
  "extractTrigramsSpec s = remdups (windows3 s)"

text \<open>
  Modelled from the spec: \<open>extractLiteralsFromRegex\<close> of \<open>bloom-filter.ts\<close>, which is not
  among the sources. A literal is a maximal run of pattern characters that appears
  verbatim in any matching text; a fragment in doubt is not a literal, and a pattern
  that cannot be read yields none. This is the cautious reading: a pattern with a
  metacharacter other than the dot yields no literal, any other pattern yields its
  non-empty runs between dots.
\<close>

definition extractLiteralsSpec :: "string \<Rightarrow> string list" where
  "extractLiteralsSpec pattern =
     (if list_ex (\<lambda>c. isMetaChar c \<and> c \<noteq> CHR ''.'') pattern then []
      else filter (\<lambda>run. run \<noteq> []) (splitDot pattern))"

text \<open>
  Modelled from the spec: the class \<open>RegexSearchBloomFilter\<close> of \<open>bloom-filter.ts\<close>, which
  is not among the sources. Every document identity has one bit array, of a size and
  with a number of hash functions fixed at construction; the array is kept as the list
  of the positions of its set bits. Inserting a text sets, for each of its trigrams, the
  bit of every hash function. A document is a candidate when every trigram of every
  literal of the pattern probes positive in its array. The spec leaves the hash
  functions open: \<open>hash k\<close> is the \<open>k\<close>-th of them.
\<close>

record BloomIndex =
  bitsPerDocument :: nat
  hashFunctions :: nat
  entries :: "(string \<times> nat list) list"

text \<open>Modelled from the spec: the constructor; the size is given in bytes.\<close>

definition newFilterSpec :: "int \<Rightarrow> nat \<Rightarrow> BloomIndex" where
  "newFilterSpec sizeBytes numHashes =
     \<lparr>bitsPerDocument = nat (8 * sizeBytes), hashFunctions = numHashes, entries = []\<rparr>"

text \<open>
  Modelled from the spec: the bit positions of a trigram, one for each hash function.
  An array of no bits has no positions.
\<close>

definition bitPositions :: "(nat \<Rightarrow> string \<Rightarrow> nat) \<Rightarrow> BloomIndex \<Rightarrow> string \<Rightarrow> nat list" where
  "bitPositions hash idx trigram =
     (if bitsPerDocument idx = 0 then []
      else map (\<lambda>k. hash k trigram mod bitsPerDocument idx) [0..<hashFunctions idx])"

text \<open>
  Modelled from the spec: \<open>addDocument\<close> (the spec's \<open>insert\<close>); a document that is
  indexed again keeps the bits it has.
\<close>

definition addDocumentSpec ::
  "(nat \<Rightarrow> string \<Rightarrow> nat) \<Rightarrow> string \<Rightarrow> string \<Rightarrow> BloomIndex \<Rightarrow> BloomIndex" where
  "addDocumentSpec hash docId text idx =
     (let bits = concat (map (bitPositions hash idx) (extractTrigramsSpec text))
      in idx\<lparr>entries :=
           (if docId \<in> set (map fst (entries idx))
            then map (\<lambda>(d, bs). if d = docId then (d, bs @ bits) else (d, bs)) (entries idx)
            else entries idx @ [(docId, bits)])\<rparr>)"

text \<open>Modelled from the spec: \<open>probe\<close>, all positions of the trigram are set.\<close>

definition probe :: "(nat \<Rightarrow> string \<Rightarrow> nat) \<Rightarrow> BloomIndex \<Rightarrow> nat list \<Rightarrow> string \<Rightarrow> bool" where
  "probe hash idx bits trigram = list_all (\<lambda>p. p \<in> set bits) (bitPositions hash idx trigram)"

text \<open>
  Modelled from the spec: \<open>testRegexPattern\<close>; the candidates are the identities that
  pass every probe, and the prefilter is worth using when there is a trigram to probe.
\<close>

definition testRegexPatternSpec ::
  "(nat \<Rightarrow> string \<Rightarrow> nat) \<Rightarrow> string \<Rightarrow> BloomIndex \<Rightarrow> TestResult \<times> BloomIndex" where
  "testRegexPatternSpec hash pattern idx =
     (let tris = concat (map extractTrigramsSpec (extractLiteralsSpec pattern))
      in (\<lparr>candidates =
             map fst (filter (\<lambda>(d, bits). list_all (probe hash idx bits) tris) (entries idx)),
           shouldUsePrefilter = (tris \<noteq> [])\<rparr>,
          idx))"

text \<open>Modelled from the spec: the module, for given hash functions.\<close>

definition bloomModuleSpec :: "(nat \<Rightarrow> string \<Rightarrow> nat) \<Rightarrow> BloomIndex BloomModule" where
  "bloomModuleSpec hash =
     \<lparr>extractLiteralsFromRegex = extractLiteralsSpec,
      extractTrigrams = extractTrigramsSpec,
      newFilter = newFilterSpec,
      addDocument = addDocumentSpec hash,
      testRegexPattern = testRegexPatternSpec hash\<rparr>"

text \<open>A choice of hash functions for the worked examples.\<close>

definition exampleHash :: "nat \<Rightarrow> string \<Rightarrow> nat" where
  "exampleHash k trigram = foldl (\<lambda>h c. h * 31 + of_char c) (k + 1) trigram"

definition exampleBloom :: "BloomIndex BloomModule" where
  "exampleBloom = bloomModuleSpec exampleHash"

section \<open>A fragment of the regular expression engine\<close>

text \<open>
  The regular expressions of JavaScript whose pattern is built from ordinary characters
  and the dot, with the flags \<open>''\<close> or \<open>g\<close>. The dot matches any character but a line
  feed or a carriage return. Without \<open>g\<close>, \<open>test\<close> searches the text from its start and
  leaves the object as it was. With \<open>g\<close>, it searches from \<open>lastIndex\<close>, and sets
  \<open>lastIndex\<close> to the end of the match, or to zero when there is none. Every other
  pattern or flag is refused; of the patterns refused, the examples use only \<open>(\<close>,
  which JavaScript refuses as well.
\<close>

record LiteralRegExp =
  source :: string
  globalFlag :: bool
  lastIndex :: nat

fun matchesHere :: "string \<Rightarrow> string \<Rightarrow> bool" where
  "matchesHere [] text = True"
| "matchesHere (p # ps) [] = False"
| "matchesHere (p # ps) (c # cs) =
     ((if p = CHR ''.'' then c \<noteq> CHR 0x0A \<and> c \<noteq> CHR 0x0D else p = c) \<and> matchesHere ps cs)"

text \<open>The first position at or after \<open>pos\<close> where the pattern matches; \<open>text\<close> starts at \<open>pos\<close>.\<close>

fun findMatch :: "string \<Rightarrow> string \<Rightarrow> nat \<Rightarrow> nat option" where
  "findMatch pat [] pos = (if matchesHere pat [] then Some pos else None)"
| "findMatch pat (c # cs) pos =
     (if matchesHere pat (c # cs) then Some pos else findMatch pat cs (pos + 1))"

definition literalNew :: "string \<Rightarrow> string \<Rightarrow> LiteralRegExp option" where
  "literalNew pattern options =
     (if list_ex (\<lambda>c. isMetaChar c \<and> c \<noteq> CHR ''.'') pattern then None
      else if options = [] then Some \<lparr>source = pattern, globalFlag = False, lastIndex = 0\<rparr>
      else if options = ''g'' then Some \<lparr>source = pattern, globalFlag = True, lastIndex = 0\<rparr>
      else None)"

definition literalTest :: "LiteralRegExp \<Rightarrow> string \<Rightarrow> bool \<times> LiteralRegExp" where
  "literalTest regex text =
     (if globalFlag regex then
        (if length text < lastIndex regex then (False, regex\<lparr>lastIndex := 0\<rparr>)
         else (case findMatch (source regex) (drop (lastIndex regex) text) (lastIndex regex) of
                 None \<Rightarrow> (False, regex\<lparr>lastIndex := 0\<rparr>)
               | Some i \<Rightarrow> (True, regex\<lparr>lastIndex := i + length (source regex)\<rparr>)))
      else (findMatch (source regex) text 0 \<noteq> None, regex))"

definition literalEngine :: "LiteralRegExp RegExpEngine" where
  "literalEngine = \<lparr>regexpNew = literalNew, regexpTest = literalTest\<rparr>"

text \<open>The collection of the spec's scenario, and a clock that shows no time passing.\<close>

definition helloDocs :: collection where
  "helloDocs =
     [[(''text'', JString ''hello world'')],
      [(''text'', JString ''goodbye'')],
      [(''text'', JString ''hello there'')]]"

definition stillClock :: Clock where
  "stillClock =
     \<lparr>startTime = 0, prefilterStartTime = 0, prefilterEndTime = 0,
      verificationStartTime = 0, verificationEndTime = 0, finishTime = 0\<rparr>"

text \<open>
  States and collections of the worked examples: a state in which an index was built by
  a query that switched the filter on for itself while the default had it off; a
  collection of one document; a collection whose field is a number in one document and
  missing in another; a collection of one document whose \<open>_id\<close> is an object with a key
  \<open>toString\<close>; a pattern of length 53 with 48 metacharacters.
\<close>

definition builtWhileDisabled :: "BloomIndex GlobalState" where
  "builtWhileDisabled =
     runCalls literalEngine exampleBloom initialState
       [CallConfigureRegexSearch (enableOverride False),
        CallEnhancedRegexMatch stillClock helloDocs ''text'' ''hello'' [] (enableOverride True)]"

definition oneDoc :: collection where
  "oneDoc = [[(''text'', JString ''hello'')]]"


definition poisonedDocs :: collection where
  "poisonedDocs =
     [[(''_id'', JObject [(''toString'', JString ''x'')]), (''text'', JString ''hello'')]]"

definition dottedPattern :: string where
  "dottedPattern = ''hello................................................''"

section \<open>Basic facts\<close>

subsection \<open>Field resolution and the scans\<close>

lemma walkKeys_None [simp]: "walkKeys None keys = None"
  by (cases keys) simp_all


lemma filterDocs_subseq: "subseq (filterDocs eng regex field docs) docs"
proof (induction docs arbitrary: regex)
  case Nil
  show ?case by simp
next
  case (Cons doc docs)
  show ?case
  proof (cases "fieldText doc field")
    case None
    then show ?thesis using Cons.IH [of regex] by auto
  next
    case (Some s)
    obtain b regex' where t: "regexpTest eng regex s = (b, regex')"
      by (cases "regexpTest eng regex s")
    show ?thesis using Some t Cons.IH [of regex'] by (cases b) auto
  qed
qed


lemma performFull_subseq:
  "subseq (performFullRegexSearch eng docs field pattern options) docs"
  by (simp add: performFullRegexSearch_def filterDocs_subseq split: option.split)


lemma performFull_invalid:
  "regexpNew eng pattern options = None \<Longrightarrow> performFullRegexSearch eng docs field pattern options = []"
  by (simp add: performFullRegexSearch_def)




lemma enumerate_filter_subseq:
  "subseq (map snd (filter P (enumerate n xs))) xs"
  by (induction xs arbitrary: n) auto

lemma idString_error: "idString doc = Inl e \<longleftrightarrow> idRaises doc"
  by (cases e) (simp add: idRaises_def)

lemma docIdOf_error: "docIdOf doc index = Inl e \<longleftrightarrow> idRaises doc"
  using idString_error [of doc]
  by (cases "idString doc") (auto simp: docIdOf_def split: option.splits)

lemma isCandidate_error: "isCandidate cands index doc = Inl e \<Longrightarrow> idRaises doc"
  using idString_error [of doc]
  by (cases "idString doc") (auto simp: isCandidate_def split: option.splits if_splits)

lemma indexFrom_completes:
  "fst (indexFrom bm field index docs f) = None \<longleftrightarrow> \<not> list_ex idRaises docs"
proof (induction docs arbitrary: index f)
  case Nil
  show ?case by simp
next
  case (Cons doc docs)
  show ?case
  proof (cases "docIdOf doc index")
    case (Inl e)
    then show ?thesis using docIdOf_error [of doc index e] by simp
  next
    case (Inr docId)
    then have "\<not> idRaises doc" using docIdOf_error [of doc index TypeError] by simp
    then show ?thesis using Inr Cons.IH by simp
  qed
qed

lemma candidatesFrom_completes:
  "\<not> list_ex idRaises docs \<Longrightarrow>
   candidatesFrom cands index docs
     = Inr (map snd (filter (\<lambda>(i, d). isCandidate cands i d = Inr True) (enumerate index docs)))"
proof (induction docs arbitrary: index)
  case Nil
  show ?case by simp
next
  case (Cons doc docs)
  then have rest: "candidatesFrom cands (Suc index) docs
     = Inr (map snd (filter (\<lambda>(i, d). isCandidate cands i d = Inr True) (enumerate (Suc index) docs)))"
    by simp
  show ?case
  proof (cases "isCandidate cands index doc")
    case (Inl e)
    then show ?thesis using isCandidate_error Cons.prems by auto
  next
    case (Inr keep)
    then show ?thesis using rest by simp
  qed
qed

lemma candidatesFrom_subseq:
  "candidatesFrom cands index docs = Inr kept \<Longrightarrow> subseq kept docs"
proof (induction docs arbitrary: index kept)
  case Nil
  then show ?case by simp
next
  case (Cons doc docs)
  then show ?case
    by (auto split: sum.splits if_splits)
qed

lemma candidateDocsOf_subseq: "candidateDocsOf cands docs = Inr kept \<Longrightarrow> subseq kept docs"
  unfolding candidateDocsOf_def by (rule candidatesFrom_subseq)

subsection \<open>The branches of the search\<close>

lemma probeResult_none: "probeResult bm st docs field pattern = None \<longleftrightarrow> list_ex idRaises docs"
  using indexFrom_completes [of bm field 0 docs "fst (getGlobalRegexFilter bm st)"]
  by (auto simp: probeResult_def buildRegexDocumentIndex_def split: prod.splits option.splits)

lemma probeResult_stats [simp]:
  "probeResult bm (st\<lparr>regexSearchStats := stats\<rparr>) docs field pattern = probeResult bm st docs field pattern"
  by (simp add: probeResult_def getGlobalRegexFilter_def Let_def split: option.split)

lemma prefilteredSearch_result:
  "fst (prefilteredSearch eng bm clock st docs field pattern options) =
     (case probeResult bm st docs field pattern of
        None \<Rightarrow> Inl TypeError
      | Some res \<Rightarrow>
          if \<not> shouldUsePrefilter res \<or> exceedsSeventyPercent (length (candidates res)) (length docs)
          then Inr (performFullRegexSearch eng docs field pattern options)
          else (case candidateDocsOf (candidates res) docs of
                  Inl e \<Rightarrow> Inl e
                | Inr candidateDocs \<Rightarrow>
                    Inr (performFullRegexSearch eng candidateDocs field pattern options)))"
proof -
  have e: "e = TypeError" for e :: jsError by (cases e)
  show ?thesis
    by (auto simp: prefilteredSearch_def probeResult_def Let_def e
             split: prod.splits option.splits sum.splits)
qed

text \<open>
  The candidates are selected only after the indexing has gone through every document,
  so the selection finds no identity that raises.
\<close>

lemma prefilteredSearch_outcome:
  "fst (prefilteredSearch eng bm clock st docs field pattern options) =
     (case probeResult bm st docs field pattern of
        None \<Rightarrow> Inl TypeError
      | Some res \<Rightarrow>
          if \<not> shouldUsePrefilter res \<or> exceedsSeventyPercent (length (candidates res)) (length docs)
          then Inr (performFullRegexSearch eng docs field pattern options)
          else Inr (performFullRegexSearch eng
                      (map snd (filter (\<lambda>(i, d). isCandidate (candidates res) i d = Inr True)
                                  (enumerate 0 docs)))
                      field pattern options))"
proof (cases "probeResult bm st docs field pattern")
  case None
  then show ?thesis by (simp add: prefilteredSearch_result)
next
  case (Some res)
  then have "\<not> list_ex idRaises docs"
    using probeResult_none [of bm st docs field pattern] by simp
  then show ?thesis
    using Some by (simp add: prefilteredSearch_result candidateDocsOf_def candidatesFrom_completes)
qed

lemma prefilteredSearch_totalQueries:
  "totalQueries (regexSearchStats (snd (prefilteredSearch eng bm clock st docs field pattern options)))
     = totalQueries (regexSearchStats st)"
  by (auto simp: prefilteredSearch_def getGlobalRegexFilter_def Let_def
           split: prod.split option.split sum.split)

lemma prefilteredSearch_filter:
  "globalRegexSearchFilter (snd (prefilteredSearch eng bm clock st docs field pattern options)) \<noteq> None"
  by (auto simp: prefilteredSearch_def Let_def split: prod.split option.split sum.split)

lemma prefilteredSearch_defaultConfig:
  "defaultConfig (snd (prefilteredSearch eng bm clock st docs field pattern options)) = defaultConfig st"
  by (auto simp: prefilteredSearch_def getGlobalRegexFilter_def Let_def
           split: prod.split option.split sum.split)

lemma prefilteredSearch_unsupported:
  "unsupportedPatterns (regexSearchStats (snd (prefilteredSearch eng bm clock st docs field pattern options)))
     = unsupportedPatterns (regexSearchStats st)"
  by (auto simp: prefilteredSearch_def getGlobalRegexFilter_def Let_def
           split: prod.split option.split sum.split)

lemma prefilteredSearch_prefilterHits:
  "prefilterHits (regexSearchStats (snd (prefilteredSearch eng bm clock st docs field pattern options)))
     = prefilterHits (regexSearchStats st)
       + (case probeResult bm st docs field pattern of
            None \<Rightarrow> 0
          | Some res \<Rightarrow>
              if \<not> shouldUsePrefilter res
                 \<or> exceedsSeventyPercent (length (candidates res)) (length docs)
              then 0 else 1)"
  by (auto simp: prefilteredSearch_def probeResult_def getGlobalRegexFilter_def Let_def
           split: prod.split option.split sum.split)

lemma enhanced_totalQueries:
  "totalQueries (regexSearchStats (snd (enhancedRegexMatch eng bm clock st docs field pattern options config)))
     = totalQueries (regexSearchStats st) + 1"
  by (simp add: enhancedRegexMatch_def Let_def prefilteredSearch_totalQueries countSkipped_def)

lemma enhanced_defaultConfig:
  "defaultConfig (snd (enhancedRegexMatch eng bm clock st docs field pattern options config))
     = defaultConfig st"
  by (simp add: enhancedRegexMatch_def Let_def prefilteredSearch_defaultConfig)

lemma enhanced_empty_pattern:
  "fst (enhancedRegexMatch eng bm clock st docs field [] options config) = Inr []"
  by (simp add: enhancedRegexMatch_def Let_def)

lemma enhanced_skip:
  assumes "pattern \<noteq> []"
      and "\<not> enableBloomFilter (mergeConfig (defaultConfig st) config)
           \<or> \<not> hasUsefulLiterals bm (mergeConfig (defaultConfig st) config) pattern
           \<or> patternTooLong (mergeConfig (defaultConfig st) config) pattern"
  shows "fst (enhancedRegexMatch eng bm clock st docs field pattern options config)
           = Inr (performFullRegexSearch eng docs field pattern options)"
  using assms by (auto simp: enhancedRegexMatch_def Let_def)

lemma enhanced_eligible:
  assumes "pattern \<noteq> []"
      and "enableBloomFilter (mergeConfig (defaultConfig st) config)"
      and "hasUsefulLiterals bm (mergeConfig (defaultConfig st) config) pattern"
      and "\<not> patternTooLong (mergeConfig (defaultConfig st) config) pattern"
  shows "enhancedRegexMatch eng bm clock st docs field pattern options config
           = prefilteredSearch eng bm clock
               (st\<lparr>regexSearchStats :=
                    (regexSearchStats st)\<lparr>totalQueries := totalQueries (regexSearchStats st) + 1\<rparr>\<rparr>)
               docs field pattern options"
  using assms by (simp add: enhancedRegexMatch_def Let_def)

text \<open>
  The search raises in one case only: the query goes to the prefilter and the identity
  of some document raises.
\<close>

lemma enhanced_raises:
  "fst (enhancedRegexMatch eng bm clock st docs field pattern options config) = Inl e \<longleftrightarrow>
     pattern \<noteq> []
     \<and> enableBloomFilter (mergeConfig (defaultConfig st) config)
     \<and> hasUsefulLiterals bm (mergeConfig (defaultConfig st) config) pattern
     \<and> \<not> patternTooLong (mergeConfig (defaultConfig st) config) pattern
     \<and> list_ex idRaises docs"
proof -
  have pre: "fst (prefilteredSearch eng bm clock st' docs field pattern options) = Inl e
               \<longleftrightarrow> list_ex idRaises docs"
    if "probeResult bm st' docs field pattern = probeResult bm st docs field pattern" for st'
    using that probeResult_none [of bm st docs field pattern]
    by (cases e) (auto simp: prefilteredSearch_outcome split: option.splits)
  show ?thesis
    by (auto simp: enhancedRegexMatch_def Let_def pre)
qed



lemma runCalls_totalQueries:
  "CallResetRegexSearchStats \<notin> set calls \<Longrightarrow>
   totalQueries (regexSearchStats (runCalls eng bm st calls))
     = totalQueries (regexSearchStats st) + length (filter isQuery calls)"
proof (induction calls arbitrary: st)
  case Nil
  show ?case by (simp add: runCalls_def)
next
  case (Cons call calls)
  have step: "totalQueries (regexSearchStats (applyCall eng bm st call))
                = totalQueries (regexSearchStats st) + (if isQuery call then 1 else 0)"
    using Cons.prems
    by (cases call)
       (simp_all add: enhanced_totalQueries configureRegexSearch_def clearRegexSearchIndex_def Let_def)
  have "runCalls eng bm st (call # calls) = runCalls eng bm (applyCall eng bm st call) calls"
    by (simp add: runCalls_def)
  then show ?case using Cons.IH [of "applyCall eng bm st call"] Cons.prems step by simp
qed

subsection \<open>Rounding to a double\<close>

text \<open>
  Rounding adds at most half a unit in the last place. Hence more than seventy per cent
  in exact arithmetic is more than seventy per cent for the code.
\<close>

lemma bitLength_bounds: "0 < a \<Longrightarrow> 2 ^ (bitLength a - 1) \<le> a \<and> a < 2 ^ bitLength a"
proof (induction a rule: bitLength.induct)
  case (1 n)
  show ?case
  proof (cases "n div 2 = 0")
    case True
    with "1.prems" have n1: "n = 1" by presburger
    have "bitLength 1 = 1"
      by (simp add: bitLength.simps [of "Suc 0"] bitLength.simps [of 0])
    with n1 show ?thesis by simp
  next
    case False
    then have pos: "0 < n div 2" by simp
    have bl: "bitLength n = Suc (bitLength (n div 2))"
      using "1.prems" by (simp add: bitLength.simps [of n])
    have blpos: "0 < bitLength (n div 2)"
      using pos by (simp add: bitLength.simps [of "n div 2"])
    from "1.IH" [OF _ pos] "1.prems"
    have ih: "2 ^ (bitLength (n div 2) - 1) \<le> n div 2" "n div 2 < 2 ^ bitLength (n div 2)"
      by simp_all
    obtain k where k: "bitLength (n div 2) = Suc k"
      using blpos by (cases "bitLength (n div 2)") simp_all
    from ih k have "2 ^ k \<le> n div 2" "n div 2 < 2 ^ Suc k" by simp_all
    then have "2 * 2 ^ k \<le> n" "n < 2 * 2 ^ Suc k" by presburger+
    then show ?thesis using bl k by simp
  qed
qed

lemma roundSignificand_upper: "roundSignificand a * 2 ^ 53 \<le> a * (2 ^ 53 + 1)"
proof (cases "bitLength a \<le> 53")
  case True
  then show ?thesis by (simp add: roundSignificand_def)
next
  case False
  define s where "s = bitLength a - 53"
  define q where "q = a div 2 ^ s"
  define r where "r = a mod 2 ^ s"
  have spos: "0 < s" using False by (simp add: s_def)
  have apos: "0 < a"
    using False by (cases "a = 0") (simp_all add: bitLength.simps [of 0])
  have len: "bitLength a - 1 = s + 52" using False by (simp add: s_def)
  have low: "(2::nat) ^ (s + 52) \<le> a"
    using bitLength_bounds [OF apos] len by simp
  have a_eq: "a = q * 2 ^ s + r"
    using div_mult_mod_eq [of a "2 ^ s"] by (simp add: q_def r_def)
  have half: "(2::nat) ^ s = 2 * 2 ^ (s - 1)"
    using spos by (cases s) simp_all
  have rs: "roundSignificand a = (if 2 ^ (s - 1) < r \<or> (r = 2 ^ (s - 1) \<and> odd q) then q + 1 else q) * 2 ^ s"
    using False by (simp add: roundSignificand_def Let_def s_def q_def r_def)
  have up: "roundSignificand a \<le> a + 2 ^ (s - 1)"
  proof (cases "2 ^ (s - 1) < r \<or> (r = 2 ^ (s - 1) \<and> odd q)")
    case True
    then have "2 ^ (s - 1) \<le> r" by auto
    moreover have "roundSignificand a = q * 2 ^ s + 2 ^ s"
      using True rs by (simp add: algebra_simps)
    ultimately show ?thesis using a_eq half by linarith
  next
    case False
    then have "roundSignificand a = q * 2 ^ s" using rs by simp
    then show ?thesis using a_eq by linarith
  qed
  have "(2::nat) ^ (s - 1) * 2 ^ 53 = 2 ^ (s + 52)"
    using spos by (cases s) (simp_all add: power_add)
  then have "(2::nat) ^ (s - 1) * 2 ^ 53 \<le> a" using low by simp
  moreover have "roundSignificand a * 2 ^ 53 \<le> (a + 2 ^ (s - 1)) * 2 ^ 53"
    using up by (rule mult_le_mono1)
  ultimately show ?thesis by (simp add: algebra_simps)
qed

lemma exceedsSeventyPercent_exact:
  assumes n: "n < 2 ^ 32" and c: "7 * n < 10 * c"
  shows "exceedsSeventyPercent c n"
proof -
  let ?M = "6305039478318694::nat"
  have r: "roundSignificand (n * ?M) * 2 ^ 53 \<le> (n * ?M) * (2 ^ 53 + 1)"
    by (rule roundSignificand_upper)
  have c': "7 * n + 1 \<le> 10 * c" using c by simp
  have "10 * ((n * ?M) * (2 ^ 53 + 1)) < (7 * n + 1) * (2 ^ 53 * 2 ^ 53)"
    using n by simp
  also have "\<dots> \<le> (10 * c) * (2 ^ 53 * 2 ^ 53)"
    using c' by (rule mult_le_mono1)
  finally have "(n * ?M) * (2 ^ 53 + 1) < c * (2 ^ 53 * 2 ^ 53)" by simp
  with r have "roundSignificand (n * ?M) * 2 ^ 53 < (c * 2 ^ 53) * 2 ^ 53" by simp
  then have "roundSignificand (n * ?M) < c * 2 ^ 53" by simp
  then show ?thesis by (simp add: exceedsSeventyPercent_def timesPointSeven_def)
qed

subsection \<open>Evaluation of the worked examples\<close>

lemma fieldText_text: "fieldText ((''text'', JString s) # rest) ''text'' = Some s"
  by (simp add: fieldText_def getNestedFieldValue_def getProperty_def)

lemma upt_three: "[0..<3] = [0, 1, 2]"
  by (simp add: upt_conv_Cons)

lemmas bloom_eval =
  buildRegexDocumentIndex_def exampleBloom_def bloomModuleSpec_def
  newFilterSpec_def addDocumentSpec_def docIdOf_def idString_def showNat.simps
  extractTrigramsSpec_def bitPositions_def exampleHash_def Let_def
  testRegexPatternSpec_def extractLiteralsSpec_def isMetaChar_def probe_def
  fieldText_text upt_three getGlobalRegexFilter_def probeResult_def

lemma useful_hello:
  "minLiteralLength cfg = 3 \<Longrightarrow> hasUsefulLiterals exampleBloom cfg ''hello''"
  by (simp add: hasUsefulLiterals_def exampleBloom_def bloomModuleSpec_def extractLiteralsSpec_def
        isMetaChar_def)

lemma no_useful_empty:
  "minLiteralLength cfg = 3 \<Longrightarrow> \<not> hasUsefulLiterals exampleBloom cfg []"
  by (simp add: hasUsefulLiterals_def exampleBloom_def bloomModuleSpec_def extractLiteralsSpec_def
        isMetaChar_def)

lemma no_useful_he:
  "minLiteralLength cfg = 3 \<Longrightarrow> \<not> hasUsefulLiterals exampleBloom cfg ''he''"
  by (simp add: hasUsefulLiterals_def exampleBloom_def bloomModuleSpec_def extractLiteralsSpec_def
        isMetaChar_def)

lemmas config_eval =
  mergeConfig_def initialConfig_def noOverride_def enableOverride_def ceilingOverride_def
  initialState_def initialStats_def patternTooLong_def

lemma probe_hello:
  assumes "globalRegexSearchFilter st = None" and "bloomFilterSizeBytes (defaultConfig st) = 256"
  shows "probeResult exampleBloom st helloDocs ''text'' ''hello''
           = Some \<lparr>candidates = [''0'', ''2''], shouldUsePrefilter = True\<rparr>"
  using assms by (simp add: bloom_eval helloDocs_def)

lemma probe_oneDoc:
  assumes "globalRegexSearchFilter st = None" and "bloomFilterSizeBytes (defaultConfig st) = 256"
  shows "probeResult exampleBloom st oneDoc ''text'' ''hello''
           = Some \<lparr>candidates = [''0''], shouldUsePrefilter = True\<rparr>"
  using assms by (simp add: bloom_eval oneDoc_def)

lemma two_of_three: "c = 2 \<Longrightarrow> n = 3 \<Longrightarrow> \<not> exceedsSeventyPercent c n"
  by (simp add: exceedsSeventyPercent_def timesPointSeven_def roundSignificand_def
        bitLength.simps Let_def)

lemma dotted_literals: "extractLiteralsSpec dottedPattern = [''hello'']"
  by (simp add: dottedPattern_def extractLiteralsSpec_def isMetaChar_def)

lemma probe_dotted:
  assumes "globalRegexSearchFilter st = None" and "bloomFilterSizeBytes (defaultConfig st) = 256"
  shows "probeResult exampleBloom st helloDocs ''text'' dottedPattern
           = Some \<lparr>candidates = [''0'', ''2''], shouldUsePrefilter = True\<rparr>"
  using assms by (simp add: bloom_eval helloDocs_def dotted_literals del: extractLiteralsSpec_def)

lemma useful_dotted:
  "minLiteralLength cfg = 3 \<Longrightarrow> hasUsefulLiterals exampleBloom cfg dottedPattern"
  by (simp add: hasUsefulLiterals_def exampleBloom_def bloomModuleSpec_def dotted_literals)

lemma full_scan_empty_pattern:
  "performFullRegexSearch literalEngine helloDocs ''text'' [] [] =
     [[(''text'', JString ''hello world'')], [(''text'', JString ''goodbye'')],
      [(''text'', JString ''hello there'')]]"
  by code_simp

lemma full_scan_he:
  "performFullRegexSearch literalEngine helloDocs ''text'' ''he'' [] =
     [[(''text'', JString ''hello world'')], [(''text'', JString ''hello there'')]]"
  by code_simp

lemma poisoned_raises: "list_ex idRaises poisonedDocs"
  by (simp add: poisonedDocs_def idRaises_def idString_def)

lemma built_config:
  "defaultConfig builtWhileDisabled =
     \<lparr>enableBloomFilter = False, bloomFilterSizeBytes = 256,
      minLiteralLength = 3, maxPatternComplexity = 100\<rparr>"
  by (simp add: builtWhileDisabled_def runCalls_def enhanced_defaultConfig
        configureRegexSearch_def config_eval)

lemma built_index: "globalRegexSearchFilter builtWhileDisabled \<noteq> None"
proof -
  define st0 :: "BloomIndex GlobalState"
    where "st0 = configureRegexSearch (enableOverride False) initialState"
  have cfg0: "defaultConfig st0 =
      \<lparr>enableBloomFilter = False, bloomFilterSizeBytes = 256,
       minLiteralLength = 3, maxPatternComplexity = 100\<rparr>"
    by (simp add: st0_def configureRegexSearch_def config_eval)
  have b: "builtWhileDisabled =
      snd (enhancedRegexMatch literalEngine exampleBloom stillClock st0 helloDocs
             ''text'' ''hello'' [] (enableOverride True))"
    by (simp add: builtWhileDisabled_def runCalls_def st0_def)
  have "enhancedRegexMatch literalEngine exampleBloom stillClock st0 helloDocs
             ''text'' ''hello'' [] (enableOverride True)
        = prefilteredSearch literalEngine exampleBloom stillClock
            (st0\<lparr>regexSearchStats :=
                 (regexSearchStats st0)\<lparr>totalQueries := totalQueries (regexSearchStats st0) + 1\<rparr>\<rparr>)
            helloDocs ''text'' ''hello'' []"
    by (rule enhanced_eligible)
       (simp_all add: cfg0 useful_hello mergeConfig_def enableOverride_def noOverride_def
          patternTooLong_def)
  then show ?thesis
    by (simp add: b prefilteredSearch_filter)
qed

lemma hello_result:
  "fst (enhancedRegexMatch literalEngine exampleBloom stillClock initialState helloDocs
          ''text'' ''hello'' [] noOverride)
     = Inr [[(''text'', JString ''hello world'')], [(''text'', JString ''hello there'')]]"
proof -
  have p: "probeResult exampleBloom initialState helloDocs ''text'' ''hello''
             = Some \<lparr>candidates = [''0'', ''2''], shouldUsePrefilter = True\<rparr>"
    by (rule probe_hello) (simp_all add: config_eval)
  have cands: "candidateDocsOf [''0'', ''2''] helloDocs
     = Inr [[(''text'', JString ''hello world'')], [(''text'', JString ''hello there'')]]"
    by code_simp
  have verify: "performFullRegexSearch literalEngine
         [[(''text'', JString ''hello world'')], [(''text'', JString ''hello there'')]]
         ''text'' ''hello'' []
     = [[(''text'', JString ''hello world'')], [(''text'', JString ''hello there'')]]"
    by code_simp
  have h2: "enableBloomFilter
              (mergeConfig (defaultConfig (initialState :: BloomIndex GlobalState)) noOverride)"
    by (simp add: config_eval)
  have h3: "hasUsefulLiterals exampleBloom
              (mergeConfig (defaultConfig (initialState :: BloomIndex GlobalState)) noOverride) ''hello''"
    by (rule useful_hello) (simp add: config_eval)
  have h4: "\<not> patternTooLong
              (mergeConfig (defaultConfig (initialState :: BloomIndex GlobalState)) noOverride) ''hello''"
    by (simp add: config_eval)
  have three: "length helloDocs = 3" by (simp add: helloDocs_def)
  have ex: "\<not> exceedsSeventyPercent (length [''0'', ''2'' :: string]) (length helloDocs)"
    by (rule two_of_three) (simp_all add: three)
  have "fst (enhancedRegexMatch literalEngine exampleBloom stillClock initialState helloDocs
          ''text'' ''hello'' [] noOverride)
     = (case candidateDocsOf [''0'', ''2''] helloDocs of
          Inl e \<Rightarrow> Inl e
        | Inr candidateDocs \<Rightarrow>
            Inr (performFullRegexSearch literalEngine candidateDocs ''text'' ''hello'' []))"
    using h2 h3 h4 ex
    by (simp add: enhanced_eligible prefilteredSearch_result p del: list.size)
  also have "\<dots> = Inr [[(''text'', JString ''hello world'')], [(''text'', JString ''hello there'')]]"
    by (simp only: cands verify sum.case)
  finally show ?thesis .
qed


section \<open>When the prefiltered search agrees with the full scan\<close>

text \<open>
  If testing leaves the regular expression object as it was, and the candidates hold
  the identity of every document whose text matches, then the search returns what the
  full scan returns, whichever branch it takes.
\<close>

lemma filterDocs_stateless:
  assumes "\<And>s. snd (regexpTest eng regex s) = regex"
  shows "filterDocs eng regex field docs =
           filter (\<lambda>d. case fieldText d field of
                          None \<Rightarrow> False
                        | Some s \<Rightarrow> fst (regexpTest eng regex s)) docs"
proof (induction docs)
  case Nil
  show ?case by simp
next
  case (Cons doc docs)
  show ?case
  proof (cases "fieldText doc field")
    case None
    then show ?thesis using Cons.IH by simp
  next
    case (Some s)
    obtain b where t: "regexpTest eng regex s = (b, regex)"
      using assms [of s] by (cases "regexpTest eng regex s") simp
    show ?thesis using Some t Cons.IH by (cases b) simp_all
  qed
qed

lemma filter_enumerate_candidates:
  assumes "\<And>i. i < length xs \<Longrightarrow> P (xs ! i) \<Longrightarrow> Q (n + i) (xs ! i)"
  shows "filter P (map snd (filter (\<lambda>(i, d). Q i d) (enumerate n xs))) = filter P xs"
  using assms
proof (induction xs arbitrary: n)
  case Nil
  show ?case by simp
next
  case (Cons x xs)
  have hd: "P x \<Longrightarrow> Q n x" using Cons.prems [of 0] by simp
  have "\<And>i. i < length xs \<Longrightarrow> P (xs ! i) \<Longrightarrow> Q (Suc n + i) (xs ! i)"
    using Cons.prems [of "Suc i" for i] by simp
  then have tl: "filter P (map snd (filter (\<lambda>(i, d). Q i d) (enumerate (Suc n) xs))) = filter P xs"
    by (rule Cons.IH)
  show ?case using hd tl by auto
qed

lemma docId_isCandidate:
  "docIdOf doc i = Inr docId \<Longrightarrow> docId \<in> set cands \<Longrightarrow> isCandidate cands i doc = Inr True"
  by (auto simp: docIdOf_def isCandidate_def split: sum.splits option.splits if_splits)

lemma stateless_search_agrees:
  assumes eligible: "pattern \<noteq> []"
      and noraise: "\<not> list_ex idRaises docs"
      and stateless:
        "\<And>regex s. regexpNew eng pattern options = Some regex \<Longrightarrow>
           snd (regexpTest eng regex s) = regex"
      and contract:
        "\<And>res i regex s docId. probeResult bm st docs field pattern = Some res \<Longrightarrow>
           i < length docs \<Longrightarrow> regexpNew eng pattern options = Some regex \<Longrightarrow>
           fieldText (docs ! i) field = Some s \<Longrightarrow> fst (regexpTest eng regex s) \<Longrightarrow>
           docIdOf (docs ! i) i = Inr docId \<Longrightarrow> docId \<in> set (candidates res)"
  shows "fst (enhancedRegexMatch eng bm clock st docs field pattern options config)
           = Inr (performFullRegexSearch eng docs field pattern options)"
proof -
  obtain res where res: "probeResult bm st docs field pattern = Some res"
    using noraise probeResult_none [of bm st docs field pattern] by auto
  let ?kept = "map snd (filter (\<lambda>(i, d). isCandidate (candidates res) i d = Inr True)
                          (enumerate 0 docs))"
  have "performFullRegexSearch eng ?kept field pattern options
          = performFullRegexSearch eng docs field pattern options"
  proof (cases "regexpNew eng pattern options")
    case None
    then show ?thesis by (simp add: performFullRegexSearch_def)
  next
    case (Some regex)
    let ?P = "\<lambda>d. case fieldText d field of
                     None \<Rightarrow> False
                   | Some s \<Rightarrow> fst (regexpTest eng regex s)"
    have "isCandidate (candidates res) (0 + i) (docs ! i) = Inr True"
      if i: "i < length docs" and p: "?P (docs ! i)" for i
    proof -
      have "\<not> idRaises (docs ! i)"
        using noraise i by (auto simp: list_ex_iff)
      then obtain docId where d: "docIdOf (docs ! i) i = Inr docId"
        using docIdOf_error [of "docs ! i" i TypeError]
        by (cases "docIdOf (docs ! i) i") (auto intro: jsError.exhaust)
      obtain s where s: "fieldText (docs ! i) field = Some s" "fst (regexpTest eng regex s)"
        using p by (auto split: option.splits)
      have "docId \<in> set (candidates res)"
        using contract [OF res i Some s d] .
      with d show ?thesis by (simp add: docId_isCandidate)
    qed
    then have "filter ?P ?kept = filter ?P docs"
      by (rule filter_enumerate_candidates)
    then show ?thesis
      using Some by (simp add: performFullRegexSearch_def filterDocs_stateless [OF stateless [OF Some]])
  qed
  then show ?thesis
    using eligible res by (simp add: enhancedRegexMatch_def Let_def prefilteredSearch_outcome)
qed

section \<open>The claims\<close>

text \<open>
  C1 (soundness of acceleration): every document that the full scan
  \<open>performFullRegexSearch\<close> includes is also in the result of \<open>enhancedRegexMatch\<close>.

  The code does not keep this when the options carry the flag \<open>g\<close>. One regular
  expression object tests all the documents it is given, and with \<open>g\<close> each test starts
  where the last match ended. The full scan and the verification of the candidates
  feed the object different sequences of texts, so they can disagree on a document.
  Take the three documents \<open>hello world\<close>, \<open>goodbye\<close> and \<open>hello there\<close>, the pattern
  \<open>hello\<close> and the options \<open>g\<close>, and any Bloom filter module whose probe answers with
  exactly the first and the third document, the two that hold the literal. The full
  scan returns both; the search verifies the two candidates and returns the first
  alone.
\<close>

theorem C1_global_flag_drops_match:
  assumes "enableBloomFilter (mergeConfig (defaultConfig st) config)"
      and "hasUsefulLiterals bm (mergeConfig (defaultConfig st) config) ''hello''"
      and "\<not> patternTooLong (mergeConfig (defaultConfig st) config) ''hello''"
      and "probeResult bm st helloDocs ''text'' ''hello''
             = Some \<lparr>candidates = [''0'', ''2''], shouldUsePrefilter = True\<rparr>"
  shows "performFullRegexSearch literalEngine helloDocs ''text'' ''hello'' ''g''
           = [[(''text'', JString ''hello world'')], [(''text'', JString ''hello there'')]] \<and>
         fst (enhancedRegexMatch literalEngine bm clock st helloDocs ''text'' ''hello'' ''g'' config)
           = Inr [[(''text'', JString ''hello world'')]]"
proof -
  have full: "performFullRegexSearch literalEngine helloDocs ''text'' ''hello'' ''g''
     = [[(''text'', JString ''hello world'')], [(''text'', JString ''hello there'')]]"
    by code_simp
  have cands: "candidateDocsOf [''0'', ''2''] helloDocs
     = Inr [[(''text'', JString ''hello world'')], [(''text'', JString ''hello there'')]]"
    by code_simp
  have verify: "performFullRegexSearch literalEngine
         [[(''text'', JString ''hello world'')], [(''text'', JString ''hello there'')]]
         ''text'' ''hello'' ''g''
     = [[(''text'', JString ''hello world'')]]"
    by code_simp
  have three: "length helloDocs = 3" by (simp add: helloDocs_def)
  have ex: "\<not> exceedsSeventyPercent (length [''0'', ''2'' :: string]) (length helloDocs)"
    by (rule two_of_three) (simp_all add: three)
  have "fst (enhancedRegexMatch literalEngine bm clock st helloDocs ''text'' ''hello'' ''g'' config)
     = (case candidateDocsOf [''0'', ''2''] helloDocs of
          Inl e \<Rightarrow> Inl e
        | Inr candidateDocs \<Rightarrow>
            Inr (performFullRegexSearch literalEngine candidateDocs ''text'' ''hello'' ''g''))"
    using assms(1-3) ex
    by (simp add: enhanced_eligible prefilteredSearch_result assms(4) del: list.size)
  also have "\<dots> = Inr [[(''text'', JString ''hello world'')]]"
    by (simp only: cands verify sum.case)
  finally show ?thesis using full by simp
qed

text \<open>
  With the filter read from the spec, in the initial state: the probe answers so, and
  the third document is in the full scan and not in the accelerated result.
\<close>

theorem C1_global_flag_drops_match_witness:
  "probeResult exampleBloom initialState helloDocs ''text'' ''hello''
     = Some \<lparr>candidates = [''0'', ''2''], shouldUsePrefilter = True\<rparr> \<and>
   [(''text'', JString ''hello there'')]
     \<in> set (performFullRegexSearch literalEngine helloDocs ''text'' ''hello'' ''g'') \<and>
   fst (enhancedRegexMatch literalEngine exampleBloom stillClock initialState helloDocs
          ''text'' ''hello'' ''g'' noOverride)
     = Inr [[(''text'', JString ''hello world'')]]"
proof -
  have p: "probeResult exampleBloom initialState helloDocs ''text'' ''hello''
             = Some \<lparr>candidates = [''0'', ''2''], shouldUsePrefilter = True\<rparr>"
    by (rule probe_hello) (simp_all add: config_eval)
  have h1: "enableBloomFilter
              (mergeConfig (defaultConfig (initialState :: BloomIndex GlobalState)) noOverride)"
    by (simp add: config_eval)
  have h2: "hasUsefulLiterals exampleBloom
              (mergeConfig (defaultConfig (initialState :: BloomIndex GlobalState)) noOverride) ''hello''"
    by (rule useful_hello) (simp add: config_eval)
  have h3: "\<not> patternTooLong
              (mergeConfig (defaultConfig (initialState :: BloomIndex GlobalState)) noOverride) ''hello''"
    by (simp add: config_eval)
  show ?thesis
    using p C1_global_flag_drops_match [OF h1 h2 h3 p, of stillClock] by simp
qed

text \<open>
  C2 (fallback equivalence), as amended: if the pattern yields no literal of at least
  \<open>minLiteralLength\<close> characters, then \<open>enhancedRegexMatch\<close> returns the same result
  whatever \<open>enableBloomFilter\<close> is, in whatever state; for a pattern that is not empty
  this result is the result of the full scan, and for the empty pattern it is the empty
  collection.
\<close>

theorem C2_fallback_equivalence:
  assumes "\<not> hasUsefulLiterals bm (mergeConfig (defaultConfig st) config) pattern"
      and "\<not> hasUsefulLiterals bm (mergeConfig (defaultConfig st') config') pattern"
  shows "fst (enhancedRegexMatch eng bm clock st docs field pattern options config)
           = fst (enhancedRegexMatch eng bm clock' st' docs field pattern options config') \<and>
         (pattern \<noteq> [] \<longrightarrow>
            fst (enhancedRegexMatch eng bm clock st docs field pattern options config)
              = Inr (performFullRegexSearch eng docs field pattern options)) \<and>
         (pattern = [] \<longrightarrow>
            fst (enhancedRegexMatch eng bm clock st docs field pattern options config) = Inr [])"
proof (cases "pattern = []")
  case True
  then show ?thesis by (simp add: enhanced_empty_pattern)
next
  case False
  then show ?thesis using assms by (simp add: enhanced_skip)
qed

text \<open>
  The pattern \<open>he\<close> has no literal of three characters; with the filter switched on or
  off, the search returns the two documents that the full scan returns.
\<close>

theorem C2_fallback_equivalence_witness:
  "\<not> hasUsefulLiterals exampleBloom
       (mergeConfig (defaultConfig (initialState :: BloomIndex GlobalState)) (enableOverride True)) ''he'' \<and>
   fst (enhancedRegexMatch literalEngine exampleBloom stillClock initialState helloDocs
          ''text'' ''he'' [] (enableOverride True))
     = Inr [[(''text'', JString ''hello world'')], [(''text'', JString ''hello there'')]] \<and>
   fst (enhancedRegexMatch literalEngine exampleBloom stillClock initialState helloDocs
          ''text'' ''he'' [] (enableOverride False))
     = Inr [[(''text'', JString ''hello world'')], [(''text'', JString ''hello there'')]]"
proof -
  have t: "\<not> hasUsefulLiterals exampleBloom
       (mergeConfig (defaultConfig (initialState :: BloomIndex GlobalState)) (enableOverride True)) ''he''"
    by (rule no_useful_he) (simp add: config_eval)
  have f: "\<not> hasUsefulLiterals exampleBloom
       (mergeConfig (defaultConfig (initialState :: BloomIndex GlobalState)) (enableOverride False)) ''he''"
    by (rule no_useful_he) (simp add: config_eval)
  note both = C2_fallback_equivalence
    [OF t f, of literalEngine stillClock helloDocs "''text''" "[]" stillClock]
  have a: "fst (enhancedRegexMatch literalEngine exampleBloom stillClock initialState helloDocs
                  ''text'' ''he'' [] (enableOverride True))
             = Inr (performFullRegexSearch literalEngine helloDocs ''text'' ''he'' [])"
    using both [THEN conjunct2, THEN conjunct1] by simp
  have b: "fst (enhancedRegexMatch literalEngine exampleBloom stillClock initialState helloDocs
                  ''text'' ''he'' [] (enableOverride False))
             = fst (enhancedRegexMatch literalEngine exampleBloom stillClock initialState helloDocs
                  ''text'' ''he'' [] (enableOverride True))"
    using both [THEN conjunct1, symmetric] .
  show ?thesis
    using t by (simp only: b a full_scan_he simp_thms)
qed

text \<open>
  C2 as it was stated has both results equal to the full scan's. The empty pattern
  yields no literal, and the search answers it with the empty collection, filter on or
  off, while the full scan of the empty pattern returns every document whose field is a
  string.
\<close>

theorem C2_empty_pattern_counterexample:
  "\<not> hasUsefulLiterals exampleBloom
       (mergeConfig (defaultConfig (initialState :: BloomIndex GlobalState)) (enableOverride True)) [] \<and>
   fst (enhancedRegexMatch literalEngine exampleBloom stillClock initialState helloDocs
          ''text'' [] [] (enableOverride True)) = Inr [] \<and>
   fst (enhancedRegexMatch literalEngine exampleBloom stillClock initialState helloDocs
          ''text'' [] [] (enableOverride False)) = Inr [] \<and>
   performFullRegexSearch literalEngine helloDocs ''text'' [] [] =
     [[(''text'', JString ''hello world'')], [(''text'', JString ''goodbye'')],
      [(''text'', JString ''hello there'')]]"
proof -
  have "\<not> hasUsefulLiterals exampleBloom
       (mergeConfig (defaultConfig (initialState :: BloomIndex GlobalState)) (enableOverride True)) []"
    by (rule no_useful_empty) (simp add: config_eval)
  then show ?thesis
    using full_scan_empty_pattern by (simp add: enhanced_empty_pattern)
qed

text \<open>
  C3 (invalid pattern): if the pattern cannot be compiled, \<open>enhancedRegexMatch\<close> returns
  the empty collection and no exception reaches the caller.

  The \<open>SyntaxError\<close> of \<open>new RegExp\<close> is caught where it is thrown, on either path. But a
  query that goes to the prefilter indexes the collection first, and the indexing takes
  \<open>_id?.toString()\<close> of every document outside any \<open>try\<close>: for an \<open>_id\<close> that is an
  object with a key \<open>toString\<close> this raises \<open>TypeError\<close>, before the pattern is ever
  compiled. In every other case the result is the empty collection.
\<close>

theorem C3_invalid_pattern_outcome:
  assumes "regexpNew eng pattern options = None"
  shows "fst (enhancedRegexMatch eng bm clock st docs field pattern options config)
           = (if pattern \<noteq> []
                 \<and> enableBloomFilter (mergeConfig (defaultConfig st) config)
                 \<and> hasUsefulLiterals bm (mergeConfig (defaultConfig st) config) pattern
                 \<and> \<not> patternTooLong (mergeConfig (defaultConfig st) config) pattern
                 \<and> list_ex idRaises docs
              then Inl TypeError else Inr [])"
proof -
  have full: "performFullRegexSearch eng ds field pattern options = []" for ds
    using assms by (rule performFull_invalid)
  show ?thesis
    using probeResult_none [of bm st docs field pattern]
    by (auto simp: enhancedRegexMatch_def Let_def prefilteredSearch_outcome full
             split: option.splits)
qed

text \<open>
  One document with the \<open>_id\<close> \<open>{toString: 'x'}\<close>, the pattern \<open>hello\<close> and the flags
  \<open>gg\<close>, which no engine accepts: the search raises.
\<close>

theorem C3_invalid_pattern_witness:
  "regexpNew literalEngine ''hello'' ''gg'' = None \<and>
   fst (enhancedRegexMatch literalEngine exampleBloom stillClock initialState poisonedDocs
          ''text'' ''hello'' ''gg'' noOverride) = Inl TypeError"
proof -
  have h: "regexpNew literalEngine ''hello'' ''gg'' = None"
    by (simp add: literalEngine_def literalNew_def isMetaChar_def)
  have h2: "enableBloomFilter
              (mergeConfig (defaultConfig (initialState :: BloomIndex GlobalState)) noOverride)"
    by (simp add: config_eval)
  have h3: "hasUsefulLiterals exampleBloom
              (mergeConfig (defaultConfig (initialState :: BloomIndex GlobalState)) noOverride) ''hello''"
    by (rule useful_hello) (simp add: config_eval)
  have h4: "\<not> patternTooLong
              (mergeConfig (defaultConfig (initialState :: BloomIndex GlobalState)) noOverride) ''hello''"
    by (simp add: config_eval)
  show ?thesis
    using h h2 h3 h4 poisoned_raises
      C3_invalid_pattern_outcome
        [OF h, where bm = exampleBloom and st = initialState and config = noOverride
           and docs = poisonedDocs and clock = stillClock and field = "''text''"]
    by simp
qed

text \<open>
  C4 (order-preserving subsequence): the result of \<open>enhancedRegexMatch\<close> is a subsequence
  of the collection, on every path: its documents are documents of the collection, in
  the collection's order, none more often than the collection has it. The search has
  no other outcome but to raise, which it does only when the query goes to the
  prefilter and the identity of some document raises.
\<close>

theorem C4_result_is_subsequence:
  "(case fst (enhancedRegexMatch eng bm clock st docs field pattern options config) of
      Inr result \<Rightarrow> subseq result docs
    | Inl e \<Rightarrow>
        pattern \<noteq> []
        \<and> enableBloomFilter (mergeConfig (defaultConfig st) config)
        \<and> hasUsefulLiterals bm (mergeConfig (defaultConfig st) config) pattern
        \<and> (\<not> patternTooLong (mergeConfig (defaultConfig st) config) pattern)
        \<and> list_ex idRaises docs)"
proof (cases "fst (enhancedRegexMatch eng bm clock st docs field pattern options config)")
  case (Inl e)
  then show ?thesis using enhanced_raises [of eng bm clock st docs field pattern options config e]
    by simp
next
  case (Inr result)
  have kept: "subseq (performFullRegexSearch eng (map snd (filter P (enumerate 0 docs)))
                field pattern options) docs" for P
    using performFull_subseq enumerate_filter_subseq by (rule subseq_order.trans)
  have "subseq result docs"
    using Inr
    by (auto simp: enhancedRegexMatch_def Let_def prefilteredSearch_outcome performFull_subseq kept
             split: if_splits option.splits)
  then show ?thesis using Inr by simp
qed

text \<open>
  On the three documents and the pattern \<open>hello\<close> the prefiltered search returns the
  first and the third.
\<close>

theorem C4_result_is_subsequence_witness:
  "fst (enhancedRegexMatch literalEngine exampleBloom stillClock initialState helloDocs
          ''text'' ''hello'' [] noOverride)
     = Inr [[(''text'', JString ''hello world'')], [(''text'', JString ''hello there'')]] \<and>
   subseq [[(''text'', JString ''hello world'')], [(''text'', JString ''hello there'')]] helloDocs"
proof -
  have ev: "fst (enhancedRegexMatch literalEngine exampleBloom stillClock initialState helloDocs
          ''text'' ''hello'' [] noOverride)
     = Inr [[(''text'', JString ''hello world'')], [(''text'', JString ''hello there'')]]"
    by (rule hello_result)
  show ?thesis
    using ev C4_result_is_subsequence
               [where eng = literalEngine and bm = exampleBloom and clock = stillClock
                  and st = initialState and docs = helloDocs and field = "''text''"
                  and pattern = "''hello''" and options = "[]" and config = noOverride]
    by simp
qed




text \<open>
  C6 (complexity ceiling): when the complexity score of the pattern, its length plus
  the number of its metacharacters, exceeds \<open>maxPatternComplexity\<close>, the search counts an
  unsupported pattern and returns the full scan.

  The code compares the length of the pattern with the ceiling, not the score that
  \<open>analyzeRegexPattern\<close> computes. A pattern with a useful literal that is no longer than
  the ceiling is sent to the prefilter whatever its score is, and \<open>unsupportedPatterns\<close>
  stays as it was; \<open>prefilterHits\<close> grows when the probe answers and the candidates
  are used.
\<close>

theorem C6_ceiling_compares_length:
  assumes "pattern \<noteq> []"
      and "enableBloomFilter (mergeConfig (defaultConfig st) config)"
      and "hasUsefulLiterals bm (mergeConfig (defaultConfig st) config) pattern"
      and "int (length pattern) \<le> maxPatternComplexity (mergeConfig (defaultConfig st) config)"
  shows "unsupportedPatterns (regexSearchStats
             (snd (enhancedRegexMatch eng bm clock st docs field pattern options config)))
           = unsupportedPatterns (regexSearchStats st) \<and>
         prefilterHits (regexSearchStats
             (snd (enhancedRegexMatch eng bm clock st docs field pattern options config)))
           = prefilterHits (regexSearchStats st)
             + (case probeResult bm st docs field pattern of
                  None \<Rightarrow> 0
                | Some res \<Rightarrow>
                    if \<not> shouldUsePrefilter res
                       \<or> exceedsSeventyPercent (length (candidates res)) (length docs)
                    then 0 else 1)"
proof -
  have "\<not> patternTooLong (mergeConfig (defaultConfig st) config) pattern"
    using assms(4) by (simp add: patternTooLong_def)
  then show ?thesis
    using assms(1-3)
    by (simp add: enhanced_eligible prefilteredSearch_unsupported prefilteredSearch_prefilterHits)
qed

text \<open>
  The pattern \<open>hello\<close> followed by 48 dots has the score 101, above the default ceiling
  of 100, and \<open>analyzeRegexPattern\<close> finds it unsuitable; the search, with the default
  configuration, prefilters it and counts no unsupported pattern.
\<close>

theorem C6_ceiling_compares_length_witness:
  "maxPatternComplexity
       (mergeConfig (defaultConfig (initialState :: BloomIndex GlobalState)) noOverride)
     < int (complexityOf dottedPattern) \<and>
   \<not> suitableForBloom (analyzeRegexPattern exampleBloom dottedPattern) \<and>
   unsupportedPatterns (regexSearchStats
       (snd (enhancedRegexMatch literalEngine exampleBloom stillClock initialState helloDocs
               ''text'' dottedPattern [] noOverride))) = 0 \<and>
   prefilterHits (regexSearchStats
       (snd (enhancedRegexMatch literalEngine exampleBloom stillClock initialState helloDocs
               ''text'' dottedPattern [] noOverride))) = 1"
proof -
  have p: "probeResult exampleBloom initialState helloDocs ''text'' dottedPattern
             = Some \<lparr>candidates = [''0'', ''2''], shouldUsePrefilter = True\<rparr>"
    by (rule probe_dotted) (simp_all add: config_eval)
  have score: "complexityOf dottedPattern = 101"
    by (simp add: dottedPattern_def complexityOf_def isMetaChar_def)
  have len: "length dottedPattern = 53"
    by (simp add: dottedPattern_def)
  have h1: "dottedPattern \<noteq> []" by (simp add: dottedPattern_def)
  have h2: "enableBloomFilter
              (mergeConfig (defaultConfig (initialState :: BloomIndex GlobalState)) noOverride)"
    by (simp add: config_eval)
  have h3: "hasUsefulLiterals exampleBloom
              (mergeConfig (defaultConfig (initialState :: BloomIndex GlobalState)) noOverride)
              dottedPattern"
    by (rule useful_dotted) (simp add: config_eval)
  have h4: "int (length dottedPattern)
              \<le> maxPatternComplexity
                   (mergeConfig (defaultConfig (initialState :: BloomIndex GlobalState)) noOverride)"
    by (simp add: config_eval len)
  have c: "maxPatternComplexity
       (mergeConfig (defaultConfig (initialState :: BloomIndex GlobalState)) noOverride)
     < int (complexityOf dottedPattern)"
    by (simp add: config_eval score)
  have a: "\<not> suitableForBloom (analyzeRegexPattern exampleBloom dottedPattern)"
    by (simp add: analyzeRegexPattern_def Let_def score)
  have three: "length helloDocs = 3" by (simp add: helloDocs_def)
  have ex: "\<not> exceedsSeventyPercent (length [''0'', ''2'' :: string]) (length helloDocs)"
    by (rule two_of_three) (simp_all add: three)
  have z: "unsupportedPatterns (regexSearchStats (initialState :: BloomIndex GlobalState)) = 0"
          "prefilterHits (regexSearchStats (initialState :: BloomIndex GlobalState)) = 0"
    by (simp_all add: initialState_def initialStats_def)
  show ?thesis
    using c a ex C6_ceiling_compares_length
              [OF h1 h2 h3 h4, of literalEngine stillClock helloDocs "''text''" "[]"]
    by (simp add: p z del: list.size)
qed

text \<open>
  C7 (ineffective prefilter): for a query that is eligible for the prefilter, if the
  probe answers with candidates that are more than seventy per cent of the collection,
  the search returns the result of the full scan over the whole collection, and does
  not raise. The length of a JavaScript array is below \<open>2^32\<close>.
\<close>

theorem C7_ineffective_prefilter_falls_back:
  assumes "pattern \<noteq> []"
      and "enableBloomFilter (mergeConfig (defaultConfig st) config)"
      and "hasUsefulLiterals bm (mergeConfig (defaultConfig st) config) pattern"
      and "\<not> patternTooLong (mergeConfig (defaultConfig st) config) pattern"
      and "length docs < 2 ^ 32"
      and "probeResult bm st docs field pattern = Some res"
      and "7 * length docs < 10 * length (candidates res)"
  shows "fst (enhancedRegexMatch eng bm clock st docs field pattern options config)
           = Inr (performFullRegexSearch eng docs field pattern options)"
proof -
  have "exceedsSeventyPercent (length (candidates res)) (length docs)"
    using assms(5,7) by (rule exceedsSeventyPercent_exact)
  then show ?thesis
    using assms(1-4,6) by (simp add: enhanced_eligible prefilteredSearch_result)
qed

text \<open>One document that matches: the one candidate is all of the collection.\<close>

theorem C7_ineffective_prefilter_witness:
  "probeResult exampleBloom initialState oneDoc ''text'' ''hello''
     = Some \<lparr>candidates = [''0''], shouldUsePrefilter = True\<rparr> \<and>
   7 * length oneDoc < 10 * length [''0'' :: string] \<and>
   fst (enhancedRegexMatch literalEngine exampleBloom stillClock initialState oneDoc
          ''text'' ''hello'' [] noOverride)
     = Inr (performFullRegexSearch literalEngine oneDoc ''text'' ''hello'' [])"
proof -
  have p: "probeResult exampleBloom initialState oneDoc ''text'' ''hello''
             = Some \<lparr>candidates = [''0''], shouldUsePrefilter = True\<rparr>"
    by (rule probe_oneDoc) (simp_all add: config_eval)
  have h1: "''hello'' \<noteq> []" by simp
  have h2: "enableBloomFilter
              (mergeConfig (defaultConfig (initialState :: BloomIndex GlobalState)) noOverride)"
    by (simp add: config_eval)
  have h3: "hasUsefulLiterals exampleBloom
              (mergeConfig (defaultConfig (initialState :: BloomIndex GlobalState)) noOverride) ''hello''"
    by (rule useful_hello) (simp add: config_eval)
  have h4: "\<not> patternTooLong
              (mergeConfig (defaultConfig (initialState :: BloomIndex GlobalState)) noOverride) ''hello''"
    by (simp add: config_eval)
  have h5: "length oneDoc < 2 ^ 32" by (simp add: oneDoc_def)
  have one: "length oneDoc = 1" by (simp add: oneDoc_def)
  have h6: "7 * length oneDoc
      < 10 * length (candidates \<lparr>candidates = [''0''], shouldUsePrefilter = True\<rparr>)"
    by (simp add: one)
  show ?thesis
    using p h6 C7_ineffective_prefilter_falls_back
                [OF h1 h2 h3 h4 h5 p h6, of literalEngine stillClock "[]"]
    by simp
qed

text \<open>
  C8 (statistics): from the initial state, after any calls of the module's functions
  among which \<open>resetRegexSearchStats\<close> is not, \<open>totalQueries\<close> is the number of the calls
  of \<open>enhancedRegexMatch\<close>; and after \<open>resetRegexSearchStats\<close>, in any state, every
  counter and time is zero, \<open>falsePositiveRate\<close> is zero and \<open>averageSpeedupRatio\<close> is
  one.
\<close>

theorem C8_stats_consistency:
  "(CallResetRegexSearchStats \<notin> set calls \<longrightarrow>
      totalQueries (regexSearchStats (runCalls eng bm initialState calls))
        = length (filter isQuery calls)) \<and>
   regexSearchStats (resetRegexSearchStats st) =
     \<lparr>totalQueries = 0, prefilterHits = 0, candidatesBeforeFilter = 0,
      candidatesAfterFilter = 0, actualMatches = 0, falsePositiveRate = 0,
      averageSpeedupRatio = Some 1, totalPrefilterTime = 0, totalVerificationTime = 0,
      unsupportedPatterns = 0, shortPatterns = 0\<rparr>"
proof
  show "CallResetRegexSearchStats \<notin> set calls \<longrightarrow>
      totalQueries (regexSearchStats (runCalls eng bm initialState calls))
        = length (filter isQuery calls)"
    using runCalls_totalQueries [of calls eng bm initialState]
    by (simp add: initialState_def initialStats_def)
next
  show "regexSearchStats (resetRegexSearchStats st) =
     \<lparr>totalQueries = 0, prefilterHits = 0, candidatesBeforeFilter = 0,
      candidatesAfterFilter = 0, actualMatches = 0, falsePositiveRate = 0,
      averageSpeedupRatio = Some 1, totalPrefilterTime = 0, totalVerificationTime = 0,
      unsupportedPatterns = 0, shortPatterns = 0\<rparr>"
    by (simp add: resetRegexSearchStats_def initialStats_def)
qed

text \<open>Three queries among five calls; a reset after one query.\<close>

theorem C8_stats_consistency_witness:
  "totalQueries (regexSearchStats
     (runCalls literalEngine exampleBloom initialState
        [CallEnhancedRegexMatch stillClock helloDocs ''text'' ''hello'' [] noOverride,
         CallConfigureRegexSearch (enableOverride False),
         CallEnhancedRegexMatch stillClock helloDocs ''text'' ''('' [] noOverride,
         CallGetRegexSearchStats,
         CallEnhancedRegexMatch stillClock helloDocs ''text'' [] ''g'' noOverride])) = 3 \<and>
   totalQueries (regexSearchStats
     (resetRegexSearchStats
        (runCalls literalEngine exampleBloom initialState
           [CallEnhancedRegexMatch stillClock helloDocs ''text'' ''hello'' [] noOverride]))) = 0"
  using C8_stats_consistency
          [of "[CallEnhancedRegexMatch stillClock helloDocs ''text'' ''hello'' [] noOverride,
                CallConfigureRegexSearch (enableOverride False),
                CallEnhancedRegexMatch stillClock helloDocs ''text'' ''('' [] noOverride,
                CallGetRegexSearchStats,
                CallEnhancedRegexMatch stillClock helloDocs ''text'' [] ''g'' noOverride]"
              literalEngine exampleBloom
              "runCalls literalEngine exampleBloom initialState
                 [CallEnhancedRegexMatch stillClock helloDocs ''text'' ''hello'' [] noOverride]"]
  by simp

text \<open>
  C9 (configuration and the index), as amended: \<open>configureRegexSearch\<close> drops the global
  index whenever the override has a value for \<open>bloomFilterSizeBytes\<close>, be it the current
  one, or sets \<open>enableBloomFilter\<close> to false; the next query then gets a new filter of
  the configured size. Any other override, one that sets \<open>enableBloomFilter\<close> to true
  among them, leaves the index as it is. The defaults are merged with the override in
  either case.
\<close>

theorem C9_configure_invalidates:
  "(bloomFilterSizeBytesOpt config \<noteq> None \<or> enableBloomFilterOpt config = Some False \<longrightarrow>
      globalRegexSearchFilter (configureRegexSearch config st) = None \<and>
      fst (getGlobalRegexFilter bm (configureRegexSearch config st))
        = newFilter bm (bloomFilterSizeBytes (mergeConfig (defaultConfig st) config)) 3) \<and>
   (bloomFilterSizeBytesOpt config = None \<and> enableBloomFilterOpt config \<noteq> Some False \<longrightarrow>
      globalRegexSearchFilter (configureRegexSearch config st) = globalRegexSearchFilter st) \<and>
   defaultConfig (configureRegexSearch config st) = mergeConfig (defaultConfig st) config"
  by (auto simp: configureRegexSearch_def getGlobalRegexFilter_def Let_def)

theorem C9_configure_invalidates_witness:
  "globalRegexSearchFilter builtWhileDisabled \<noteq> None \<and>
   globalRegexSearchFilter (configureRegexSearch (enableOverride False) builtWhileDisabled) = None \<and>
   globalRegexSearchFilter
     (configureRegexSearch (noOverride\<lparr>bloomFilterSizeBytesOpt := Some 512\<rparr>) builtWhileDisabled)
     = None \<and>
   fst (getGlobalRegexFilter exampleBloom
          (configureRegexSearch (noOverride\<lparr>bloomFilterSizeBytesOpt := Some 512\<rparr>) builtWhileDisabled))
     = \<lparr>bitsPerDocument = 4096, hashFunctions = 3, entries = []\<rparr> \<and>
   globalRegexSearchFilter (configureRegexSearch (ceilingOverride 50) builtWhileDisabled)
     = globalRegexSearchFilter builtWhileDisabled"
  using built_index built_config
    C9_configure_invalidates [of "enableOverride False" builtWhileDisabled exampleBloom]
    C9_configure_invalidates [of "noOverride\<lparr>bloomFilterSizeBytesOpt := Some 512\<rparr>" builtWhileDisabled exampleBloom]
    C9_configure_invalidates [of "ceilingOverride 50" builtWhileDisabled exampleBloom]
  by (simp add: enableOverride_def noOverride_def ceilingOverride_def mergeConfig_def
        exampleBloom_def bloomModuleSpec_def newFilterSpec_def)

text \<open>
  C9 as it was stated has every change of the enablement flag drop the index. Switch
  the filter off by configuration, run a query that switches it on for itself, and an
  index is built while the default is off. Configuring the filter on then changes the
  flag and keeps that index.
\<close>

theorem C9_enabling_keeps_index_counterexample:
  "\<not> enableBloomFilter (defaultConfig builtWhileDisabled) \<and>
   globalRegexSearchFilter builtWhileDisabled \<noteq> None \<and>
   enableBloomFilter (defaultConfig (configureRegexSearch (enableOverride True) builtWhileDisabled)) \<and>
   globalRegexSearchFilter (configureRegexSearch (enableOverride True) builtWhileDisabled)
     = globalRegexSearchFilter builtWhileDisabled"
  using built_index built_config
  by (simp add: configureRegexSearch_def mergeConfig_def enableOverride_def noOverride_def)

text \<open>
  C10 (empty pattern): with the empty pattern \<open>enhancedRegexMatch\<close> returns the empty
  collection and counts one more query.
\<close>

theorem C10_empty_pattern_gives_empty:
  "fst (enhancedRegexMatch eng bm clock st docs field [] options config) = Inr [] \<and>
   totalQueries (regexSearchStats
       (snd (enhancedRegexMatch eng bm clock st docs field [] options config)))
     = totalQueries (regexSearchStats st) + 1"
  by (simp add: enhanced_empty_pattern enhanced_totalQueries)

text \<open>
  On the three documents the search returns nothing and counts its first query, though
  the empty pattern compiles and the full scan returns all three.
\<close>

theorem C10_empty_pattern_witness:
  "fst (enhancedRegexMatch literalEngine exampleBloom stillClock initialState helloDocs
          ''text'' [] [] noOverride) = Inr [] \<and>
   totalQueries (regexSearchStats
       (snd (enhancedRegexMatch literalEngine exampleBloom stillClock initialState helloDocs
               ''text'' [] [] noOverride))) = 1 \<and>
   performFullRegexSearch literalEngine helloDocs ''text'' [] [] = helloDocs"
  using C10_empty_pattern_gives_empty
          [of literalEngine exampleBloom stillClock initialState helloDocs "''text''" "[]" noOverride]
        full_scan_empty_pattern
  by (simp add: initialState_def initialStats_def helloDocs_def)

end
